theory Spec2Isabelle
  imports Complex_Main
begin

section \<open>Python and numpy values\<close>

text \<open>
  Exceptions of the Python source are values: every \<open>raise\<close>, failed \<open>assert\<close> and
  failing library call is an \<open>Inl\<close> branch of the model. One-dimensional numpy arrays
  are lists. A division by zero between numpy floats gives \<open>inf\<close> or \<open>nan\<close> and a
  warning, values that real numbers do not have; the model stops there with
  \<open>NotFinite\<close>.
\<close>

datatype error =
    ValueError string
  | AssertionError string
  | NameError string
  | IndexError
  | ZeroDivisionError
  | OverflowError
  | NotFinite

definition err_bind :: "error + 'a \<Rightarrow> ('a \<Rightarrow> error + 'b) \<Rightarrow> error + 'b" where
  "err_bind m f = (case m of Inl e \<Rightarrow> Inl e | Inr x \<Rightarrow> f x)"

fun sequence_err :: "(error + 'a) list \<Rightarrow> error + 'a list" where
  "sequence_err [] = Inr []"
| "sequence_err (m # ms) =
     (case m of
        Inl e \<Rightarrow> Inl e
      | Inr x \<Rightarrow> (case sequence_err ms of Inl e \<Rightarrow> Inl e | Inr xs \<Rightarrow> Inr (x # xs)))"

fun fold_err :: "('a \<Rightarrow> 'b \<Rightarrow> error + 'b) \<Rightarrow> 'a list \<Rightarrow> 'b \<Rightarrow> error + 'b" where
  "fold_err f [] acc = Inr acc"
| "fold_err f (x # xs) acc = (case f x acc of Inl e \<Rightarrow> Inl e | Inr acc' \<Rightarrow> fold_err f xs acc')"

text \<open>Python's \<open>int(x)\<close> on a float truncates towards zero.\<close>

definition py_int :: "real \<Rightarrow> int" where
  "py_int x = (if 0 \<le> x then \<lfloor>x\<rfloor> else \<lceil>x\<rceil>)"

subsection \<open>Floating-point arithmetic\<close>

text \<open>
  A float is the real number it stands for. Every function of the model takes the
  rounding \<open>fl\<close> of the arithmetic as its first argument, and the result of each
  floating-point operation of the source is the exact result rounded by \<open>fl\<close>, in the
  order in which the source evaluates. \<open>binary64\<close> is the rounding of Python and numpy
  floats: to the nearest number with a 53-bit significand, ties to the even significand
  (the exponent range is not bounded: no overflow, no subnormal numbers). The identity
  \<open>\<lambda>x. x\<close> is exact arithmetic.
\<close>

definition round_half_even :: "real \<Rightarrow> int" where
  "round_half_even y =
     (let f = \<lfloor>y\<rfloor>; d = y - of_int f
      in if d < 1 / 2 then f else if d > 1 / 2 then f + 1 else if even f then f else f + 1)"

definition pow2 :: "int \<Rightarrow> real" where
  "pow2 e = (if 0 \<le> e then 2 ^ nat e else 1 / 2 ^ nat (- e))"

definition binary64 :: "real \<Rightarrow> real" where
  "binary64 x =
     (if x = 0 then 0
      else let e = \<lfloor>log 2 \<bar>x\<bar>\<rfloor> - 52
           in of_int (round_half_even (x / pow2 e)) * pow2 e)"

text \<open>
  What the proofs about bounds use of a rounding: it is monotone, commutes with negation
  and leaves its own results unchanged.
\<close>

definition rounding :: "(real \<Rightarrow> real) \<Rightarrow> bool" where
  "rounding fl = ((\<forall>x y. x \<le> y \<longrightarrow> fl x \<le> fl y) \<and> (\<forall>x. fl (- x) = - fl x)
                  \<and> (\<forall>x. fl (fl x) = fl x))"

text \<open>\<open>np.pi\<close>, the float nearest to \<open>\<pi>\<close>.\<close>

definition np_pi :: real where
  "np_pi = 884279719003555 / 281474976710656"

text \<open>
  \<open>np.cos\<close> and \<open>np.sin\<close> on a float are taken to return the rounded cosine and sine.
\<close>

definition np_cos :: "(real \<Rightarrow> real) \<Rightarrow> real \<Rightarrow> real" where
  "np_cos fl t = fl (cos t)"

definition np_sin :: "(real \<Rightarrow> real) \<Rightarrow> real \<Rightarrow> real" where
  "np_sin fl t = fl (sin t)"

subsection \<open>The random generator\<close>

text \<open>
  \<open>np.random.RandomState(seed)\<close>: the generator is outside the repository. A generator
  state is represented by the variates it delivers, in the order they are requested: the
  standard normal variates behind \<open>state.normal\<close> and the variates in \<open>[0, 1)\<close> behind
  \<open>state.uniform\<close>. \<open>gen\<close> maps a seed to the state it initialises; a seed outside
  \<open>[0, 2**32)\<close> raises \<open>ValueError\<close>. numpy computes \<open>normal(loc, scale, n)\<close> as
  \<open>loc + scale * g\<close>, raising \<open>ValueError\<close> when \<open>scale < 0\<close>, and
  \<open>uniform(low, high, n)\<close> as \<open>low + (high - low) * u\<close>.
\<close>

record RandomState =
  gauss :: "nat \<Rightarrow> real"
  unif :: "nat \<Rightarrow> real"

definition np_RandomState :: "(int \<Rightarrow> RandomState) \<Rightarrow> int \<Rightarrow> error + RandomState" where
  "np_RandomState gen seed =
     (if 0 \<le> seed \<and> seed < 2 ^ 32 then Inr (gen seed)
      else Inl (ValueError ''Seed must be between 0 and 2**32 - 1''))"

definition normal ::
  "(real \<Rightarrow> real) \<Rightarrow> RandomState \<Rightarrow> real \<Rightarrow> real \<Rightarrow> nat \<Rightarrow> error + real list" where
  "normal fl state loc scale n =
     (if scale < 0 then Inl (ValueError ''scale < 0'')
      else Inr (map (\<lambda>k. fl (loc + fl (scale * gauss state k))) [0..<n]))"

definition uniform :: "(real \<Rightarrow> real) \<Rightarrow> RandomState \<Rightarrow> real \<Rightarrow> real \<Rightarrow> nat \<Rightarrow> real list" where
  "uniform fl state low high n =
     map (\<lambda>k. fl (low + fl (fl (high - low) * unif state k))) [0..<n]"

subsection \<open>Strided views and in-place addition\<close>

text \<open>\<open>a[::2]\<close> and \<open>a[1::2]\<close>: the entries at even and at odd indices.\<close>

fun even_slice :: "'a list \<Rightarrow> 'a list" where
  "even_slice [] = []"
| "even_slice [x] = [x]"
| "even_slice (x # y # xs) = x # even_slice xs"

fun odd_slice :: "'a list \<Rightarrow> 'a list" where
  "odd_slice [] = []"
| "odd_slice [x] = []"
| "odd_slice (x # y # xs) = y # odd_slice xs"

text \<open>
  numpy broadcasting of a one-dimensional operand \<open>rs\<close> onto a one-dimensional target of
  length \<open>n\<close> that is updated in place: equal lengths combine elementwise, an operand of
  length one is repeated, anything else raises \<open>ValueError\<close>.
\<close>

definition broadcast_to :: "nat \<Rightarrow> real list \<Rightarrow> error + real list" where
  "broadcast_to n rs =
     (if length rs = n then Inr rs
      else if length rs = 1 then Inr (replicate n (hd rs))
      else Inl (ValueError ''operands could not be broadcast together''))"

text \<open>Writing the sums back through the view: \<open>a[::2] += rs\<close> and \<open>a[1::2] += rs\<close>.\<close>

fun add_even :: "(real \<Rightarrow> real) \<Rightarrow> real list \<Rightarrow> real list \<Rightarrow> real list" where
  "add_even fl (x # y # xs) (r # rs) = fl (x + r) # y # add_even fl xs rs"
| "add_even fl [x] (r # rs) = [fl (x + r)]"
| "add_even fl xs rs = xs"

fun add_odd :: "(real \<Rightarrow> real) \<Rightarrow> real list \<Rightarrow> real list \<Rightarrow> real list" where
  "add_odd fl (x # xs) rs = x # add_even fl xs rs"
| "add_odd fl [] rs = []"

definition iadd_even :: "(real \<Rightarrow> real) \<Rightarrow> real list \<Rightarrow> real list \<Rightarrow> error + real list" where
  "iadd_even fl a rs =
     (case broadcast_to (length (even_slice a)) rs of
        Inl e \<Rightarrow> Inl e
      | Inr rs' \<Rightarrow> Inr (add_even fl a rs'))"

definition iadd_odd :: "(real \<Rightarrow> real) \<Rightarrow> real list \<Rightarrow> real list \<Rightarrow> error + real list" where
  "iadd_odd fl a rs =
     (case broadcast_to (length (odd_slice a)) rs of
        Inl e \<Rightarrow> Inl e
      | Inr rs' \<Rightarrow> Inr (add_odd fl a rs'))"

section \<open>Systematics: differential pointing\<close>

text \<open>The module constants, computed in floats when the module is loaded.\<close>

definition arcsecond2rad :: "(real \<Rightarrow> real) \<Rightarrow> real" where
  "arcsecond2rad fl = fl (fl (np_pi / 180) / 3600)"

definition arcmin2rad :: "(real \<Rightarrow> real) \<Rightarrow> real" where
  "arcmin2rad fl = fl (fl (np_pi / 180) / 60)"

definition deg2rad :: "(real \<Rightarrow> real) \<Rightarrow> real" where
  "deg2rad fl = fl (np_pi / 180)"

text \<open>
  The displacements of \<open>modify_beam_offsets\<close>: \<open>rho\<close> and \<open>theta\<close> as drawn, one per
  pair, and \<open>rhox = rho / 2. * np.cos(theta)\<close>, \<open>rhoy = rho / 2. * np.sin(theta)\<close>.
\<close>

definition beam_rho ::
  "(real \<Rightarrow> real) \<Rightarrow> RandomState \<Rightarrow> real \<Rightarrow> real \<Rightarrow> nat \<Rightarrow> error + real list" where
  "beam_rho fl state mu_diffpointing sigma_diffpointing npair =
     normal fl state (fl (mu_diffpointing * arcsecond2rad fl))
       (fl (sigma_diffpointing * arcsecond2rad fl)) npair"

definition beam_theta :: "(real \<Rightarrow> real) \<Rightarrow> RandomState \<Rightarrow> nat \<Rightarrow> real list" where
  "beam_theta fl state npair = map (\<lambda>u. fl (u * deg2rad fl)) (uniform fl state 0 360 npair)"

definition beam_rhox :: "(real \<Rightarrow> real) \<Rightarrow> real list \<Rightarrow> real list \<Rightarrow> real list" where
  "beam_rhox fl rho theta = map2 (\<lambda>r t. fl (fl (r / 2) * np_cos fl t)) rho theta"

definition beam_rhoy :: "(real \<Rightarrow> real) \<Rightarrow> real list \<Rightarrow> real list \<Rightarrow> real list" where
  "beam_rhoy fl rho theta = map2 (\<lambda>r t. fl (fl (r / 2) * np_sin fl t)) rho theta"

text \<open>
  \<open>modify_beam_offsets\<close> updates the two arrays in place, one statement after the other.
  The result is \<open>Inr (xpos, ypos)\<close> when the call returns and \<open>Inl (e, (xpos, ypos))\<close>
  when a statement raises \<open>e\<close>, with the contents the caller's arrays have at that
  moment.
\<close>

definition modify_beam_offsets ::
  "(real \<Rightarrow> real) \<Rightarrow> (int \<Rightarrow> RandomState) \<Rightarrow> real list \<Rightarrow> real list \<Rightarrow> real \<Rightarrow> real \<Rightarrow> int \<Rightarrow>
     (error \<times> (real list \<times> real list)) + (real list \<times> real list)" where
  "modify_beam_offsets fl gen bolometer_xpos bolometer_ypos mu_diffpointing sigma_diffpointing
       seed =
     (if length bolometer_xpos \<noteq> length bolometer_ypos
      then Inl (AssertionError ''x and y bolometer coordinates should have the same length'',
                (bolometer_xpos, bolometer_ypos))
      else
        (case np_RandomState gen seed of
           Inl e \<Rightarrow> Inl (e, (bolometer_xpos, bolometer_ypos))
         | Inr state \<Rightarrow>
        (let npair = length bolometer_xpos div 2
         in (case beam_rho fl state mu_diffpointing sigma_diffpointing npair of
               Inl e \<Rightarrow> Inl (e, (bolometer_xpos, bolometer_ypos))
             | Inr rho \<Rightarrow>
        (let theta = beam_theta fl state npair;
             rhox = beam_rhox fl rho theta;
             rhoy = beam_rhoy fl rho theta
         in (case iadd_even fl bolometer_xpos rhox of
               Inl e \<Rightarrow> Inl (e, (bolometer_xpos, bolometer_ypos))
             | Inr x1 \<Rightarrow>
            (case iadd_odd fl x1 (map uminus rhox) of
               Inl e \<Rightarrow> Inl (e, (x1, bolometer_ypos))
             | Inr x2 \<Rightarrow>
            (case iadd_even fl bolometer_ypos rhoy of
               Inl e \<Rightarrow> Inl (e, (x2, bolometer_ypos))
             | Inr y1 \<Rightarrow>
            (case iadd_odd fl y1 (map uminus rhoy) of
               Inl e \<Rightarrow> Inl (e, (x2, y1))
             | Inr y2 \<Rightarrow> Inr (x2, y2))))))))))"

section \<open>Systematics: crosstalk\<close>

text \<open>
  \<open>bolo_data\<close> is a two-dimensional array: one row (timestream) per detector.
  \<open>tsout[i] += c * tsout[i2]\<close> adds the multiple \<open>c\<close> of row \<open>src\<close> to row \<open>tgt\<close>,
  sample by sample.
\<close>

definition row_axpy :: "(real \<Rightarrow> real) \<Rightarrow> real \<Rightarrow> real list \<Rightarrow> real list \<Rightarrow> real list" where
  "row_axpy fl c src tgt = map2 (\<lambda>t s. fl (t + fl (c * s))) tgt src"

text \<open>
  The assignment \<open>buf[:] = src\<close> between two-dimensional arrays: \<open>src\<close> is broadcast to
  the shape of \<open>buf\<close> (a single row is repeated, a row of one sample is stretched), and
  any other difference of shape raises \<open>ValueError\<close>.
\<close>

definition assign_row :: "nat \<Rightarrow> real list \<Rightarrow> error + real list" where
  "assign_row w src =
     (if length src = w then Inr src
      else if length src = 1 then Inr (replicate w (hd src))
      else Inl (ValueError ''could not broadcast input array''))"

definition assign_2d :: "real list list \<Rightarrow> real list list \<Rightarrow> error + real list list" where
  "assign_2d buf src =
     (if length src = length buf
      then sequence_err (map2 (\<lambda>b s. assign_row (length b) s) buf src)
      else if length src = 1
      then sequence_err (map (\<lambda>b. assign_row (length b) (hd src)) buf)
      else Inl (ValueError ''could not broadcast input array''))"

text \<open>
  \<open>combs\<close> is a dictionary from SQUID id to the list of (channel, detector) pairs of
  that SQUID. It is kept as an association list in insertion order, the order in which
  \<open>for sq in combs\<close> visits the keys.
\<close>

type_synonym 'k combs = "('k \<times> (int \<times> nat) list) list"

fun combs_append :: "'k \<Rightarrow> int \<times> nat \<Rightarrow> 'k combs \<Rightarrow> 'k combs" where
  "combs_append sq e [] = [(sq, [e])]"
| "combs_append sq e ((k, vs) # rest) =
     (if k = sq then (k, vs @ [e]) # rest else (k, vs) # combs_append sq e rest)"

text \<open>
  The loop \<open>for bolo in range(len(bolo_data))\<close> that fills \<open>combs\<close>; an id array
  shorter than \<open>bolo_data\<close> raises \<open>IndexError\<close>.
\<close>

definition build_combs :: "nat \<Rightarrow> 'k list \<Rightarrow> int list \<Rightarrow> error + 'k combs" where
  "build_combs n squid_ids bolo_ids =
     (if length squid_ids < n \<or> length bolo_ids < n then Inl IndexError
      else Inr (fold (\<lambda>bolo combs. combs_append (squid_ids ! bolo) (bolo_ids ! bolo, bolo) combs)
                  [0..<n] []))"

text \<open>
  The Python loops of \<open>inject_crosstalk_inside_SQUID\<close>: for every SQUID, for every
  (channel, detector) of it, for every (channel, detector) of it again.
\<close>

definition inside_SQUID_pair ::
  "(real \<Rightarrow> real) \<Rightarrow> int \<Rightarrow> nat \<Rightarrow> real list \<Rightarrow> int \<times> nat \<Rightarrow> int \<times> nat \<Rightarrow>
   real list list \<Rightarrow> real list list" where
  "inside_SQUID_pair fl radius beta cross_amp chi chi2 tsout =
     (let separation_length = \<bar>fst chi - fst chi2\<bar>; i = snd chi; i2 = snd chi2
      in if separation_length > 0 \<and> separation_length \<le> radius
         then tsout[i := row_axpy fl (fl (cross_amp ! i2 / fl (of_int (separation_length ^ beta))))
                            (tsout ! i2) (tsout ! i)]
         else tsout)"

definition inside_SQUID_loops ::
  "(real \<Rightarrow> real) \<Rightarrow> int \<Rightarrow> nat \<Rightarrow> real list \<Rightarrow> 'k combs \<Rightarrow> real list list \<Rightarrow> real list list" where
  "inside_SQUID_loops fl radius beta cross_amp combs tsout =
     fold (\<lambda>(sq, members).
             fold (\<lambda>chi. fold (inside_SQUID_pair fl radius beta cross_amp chi) members) members)
       combs tsout"

text \<open>
  The end of both injection functions: the result goes into \<open>new_array\<close> when one is
  given and into \<open>bolo_data\<close> otherwise. The value is the pair (\<open>bolo_data\<close>,
  \<open>new_array\<close>) after the call.
\<close>

definition write_back ::
  "real list list \<Rightarrow> real list list option \<Rightarrow> real list list \<Rightarrow>
   error + (real list list \<times> real list list option)" where
  "write_back bolo_data new_array tsout =
     (case new_array of
        Some buf \<Rightarrow> err_bind (assign_2d buf tsout) (\<lambda>buf'. Inr (bolo_data, Some buf'))
      | None \<Rightarrow> Inr (tsout, None))"

text \<open>
  \<open>inject_crosstalk_inside_SQUID\<close>. The Fortran kernel of \<open>language == 'fortran'\<close> is
  compiled code outside the Python sources; it is the parameter
  \<open>inject_crosstalk_inside_squid_f\<close>, called once per SQUID with the local and global
  indices. Any other \<open>language\<close> leaves \<open>tsout\<close> as copied.
\<close>

definition inject_crosstalk_inside_SQUID ::
  "(real \<Rightarrow> real) \<Rightarrow>
   (real list list \<Rightarrow> int list \<Rightarrow> nat list \<Rightarrow> int \<Rightarrow> real list \<Rightarrow> nat \<Rightarrow> real list list) \<Rightarrow>
   (int \<Rightarrow> RandomState) \<Rightarrow> real list list \<Rightarrow> 'k list \<Rightarrow> int list \<Rightarrow> real \<Rightarrow> real \<Rightarrow> int \<Rightarrow> nat \<Rightarrow>
   int \<Rightarrow> real list list option \<Rightarrow> string \<Rightarrow> error + (real list list \<times> real list list option)" where
  "inject_crosstalk_inside_SQUID fl inject_crosstalk_inside_squid_f gen bolo_data squid_ids
       bolo_ids mu sigma radius beta seed new_array language =
     (let mu' = fl (mu / 100); sigma' = fl (sigma / 100)
      in err_bind (build_combs (length bolo_data) squid_ids bolo_ids) (\<lambda>combs.
         let tsout = map (map (\<lambda>v. fl (0 + v))) bolo_data
         in err_bind (np_RandomState gen seed) (\<lambda>state.
            err_bind (normal fl state mu' sigma' (length bolo_data)) (\<lambda>cross_amp.
              write_back bolo_data new_array
                (if language = ''python''
                 then inside_SQUID_loops fl radius beta cross_amp combs tsout
                 else if language = ''fortran''
                 then fold (\<lambda>(sq, members) ts.
                              inject_crosstalk_inside_squid_f ts (map fst members)
                                (map snd members) radius cross_amp beta)
                        combs tsout
                 else tsout)))))"

text \<open>
  \<open>inject_crosstalk_SQUID_to_SQUID\<close>: for every SQUID, for every detector of it, for
  every other SQUID, for every detector of that one. The division by a zero
  \<open>squid_attenuation\<close> is a division between floats.
\<close>

definition SQUID_to_SQUID_pair ::
  "(real \<Rightarrow> real) \<Rightarrow> real \<Rightarrow> real list \<Rightarrow> int \<times> nat \<Rightarrow> int \<times> nat \<Rightarrow> real list list \<Rightarrow>
   error + real list list" where
  "SQUID_to_SQUID_pair fl squid_attenuation cross_amp chi chi2 tsout =
     (let i = snd chi; i2 = snd chi2
      in if squid_attenuation = 0 then Inl NotFinite
         else Inr (tsout[i := row_axpy fl (fl (cross_amp ! i2 / squid_attenuation))
                                 (tsout ! i2) (tsout ! i)]))"

definition SQUID_to_SQUID_loops ::
  "(real \<Rightarrow> real) \<Rightarrow> real \<Rightarrow> real list \<Rightarrow> 'k combs \<Rightarrow> real list list \<Rightarrow> error + real list list" where
  "SQUID_to_SQUID_loops fl squid_attenuation cross_amp combs tsout =
     fold_err (\<lambda>(sq1, members1).
        fold_err (\<lambda>chi.
          fold_err (\<lambda>(sq2, members2) ts.
                      if sq2 = sq1 then Inr ts
                      else fold_err (SQUID_to_SQUID_pair fl squid_attenuation cross_amp chi)
                             members2 ts)
            combs)
          members1)
       combs tsout"

definition inject_crosstalk_SQUID_to_SQUID ::
  "(real \<Rightarrow> real) \<Rightarrow> (int \<Rightarrow> RandomState) \<Rightarrow> real list list \<Rightarrow> 'k list \<Rightarrow> int list \<Rightarrow> real \<Rightarrow> real \<Rightarrow>
   real \<Rightarrow> int \<Rightarrow> real list list option \<Rightarrow> error + (real list list \<times> real list list option)" where
  "inject_crosstalk_SQUID_to_SQUID fl gen bolo_data squid_ids bolo_ids mu sigma
       squid_attenuation seed new_array =
     (let mu' = fl (mu / 100); sigma' = fl (sigma / 100)
      in err_bind (build_combs (length bolo_data) squid_ids bolo_ids) (\<lambda>combs.
         let tsout = map (map (\<lambda>v. fl (0 + v))) bolo_data
         in err_bind (np_RandomState gen seed) (\<lambda>state.
            err_bind (normal fl state mu' sigma' (length bolo_data)) (\<lambda>cross_amp.
            err_bind (SQUID_to_SQUID_loops fl squid_attenuation cross_amp combs tsout)
              (write_back bolo_data new_array)))))"

text \<open>
  The behaviour the crosstalk description asks for, for comparison with the loops above:
  every pairwise term is read from the snapshot \<open>orig\<close> of the timestreams taken at the
  start of the call, while the sums are accumulated in \<open>tsout\<close>.
\<close>

definition snapshot_inside_SQUID_pair ::
  "(real \<Rightarrow> real) \<Rightarrow> int \<Rightarrow> nat \<Rightarrow> real list \<Rightarrow> real list list \<Rightarrow> int \<times> nat \<Rightarrow> int \<times> nat \<Rightarrow>
   real list list \<Rightarrow> real list list" where
  "snapshot_inside_SQUID_pair fl radius beta cross_amp orig chi chi2 tsout =
     (let separation_length = \<bar>fst chi - fst chi2\<bar>; i = snd chi; i2 = snd chi2
      in if separation_length > 0 \<and> separation_length \<le> radius
         then tsout[i := row_axpy fl (fl (cross_amp ! i2 / fl (of_int (separation_length ^ beta))))
                            (orig ! i2) (tsout ! i)]
         else tsout)"

definition snapshot_inside_SQUID_loops ::
  "(real \<Rightarrow> real) \<Rightarrow> int \<Rightarrow> nat \<Rightarrow> real list \<Rightarrow> 'k combs \<Rightarrow> real list list \<Rightarrow> real list list" where
  "snapshot_inside_SQUID_loops fl radius beta cross_amp combs orig =
     fold (\<lambda>(sq, members).
             fold (\<lambda>chi. fold (snapshot_inside_SQUID_pair fl radius beta cross_amp orig chi)
                           members)
               members)
       combs orig"

definition snapshot_SQUID_to_SQUID_pair ::
  "(real \<Rightarrow> real) \<Rightarrow> real \<Rightarrow> real list \<Rightarrow> real list list \<Rightarrow> int \<times> nat \<Rightarrow> int \<times> nat \<Rightarrow>
   real list list \<Rightarrow> error + real list list" where
  "snapshot_SQUID_to_SQUID_pair fl squid_attenuation cross_amp orig chi chi2 tsout =
     (let i = snd chi; i2 = snd chi2
      in if squid_attenuation = 0 then Inl NotFinite
         else Inr (tsout[i := row_axpy fl (fl (cross_amp ! i2 / squid_attenuation))
                                 (orig ! i2) (tsout ! i)]))"

definition snapshot_SQUID_to_SQUID_loops ::
  "(real \<Rightarrow> real) \<Rightarrow> real \<Rightarrow> real list \<Rightarrow> 'k combs \<Rightarrow> real list list \<Rightarrow> error + real list list" where
  "snapshot_SQUID_to_SQUID_loops fl squid_attenuation cross_amp combs orig =
     fold_err (\<lambda>(sq1, members1).
        fold_err (\<lambda>chi.
          fold_err (\<lambda>(sq2, members2) ts.
                      if sq2 = sq1 then Inr ts
                      else fold_err (snapshot_SQUID_to_SQUID_pair fl squid_attenuation cross_amp
                                       orig chi)
                             members2 ts)
            combs)
          members1)
       combs orig"

section \<open>External libraries of the scanning strategy\<close>

text \<open>
  \<open>ephem\<close>, \<open>pyslalib\<close> and \<open>healpy\<close> are third-party libraries. The model takes what
  the source calls from them as parameters, collected in one record per library, so that
  every statement about the source holds for whatever these routines compute.
\<close>

text \<open>
  \<open>ephem.Observer\<close>: the site and its mutable date cursor (an \<open>ephem.Date\<close>, a number of
  days). \<open>elev\<close> is the attribute \<open>elevation\<close> of the observer.
\<close>

record Observer =
  long :: string
  lat :: string
  elev :: real
  date :: real

text \<open>
  \<open>sidereal_time\<close> and \<open>radec_of\<close> are the methods of the observer (they read its
  date), \<open>hours\<close> is \<open>ephem.hours\<close> on a string, \<open>datetime\<close> is
  \<open>str(date.datetime())\<close>, \<open>second\<close> is the constant \<open>ephem.second\<close>, the float
  the library has for one second in days.
\<close>

record ephem =
  sidereal_time :: "Observer \<Rightarrow> real"
  radec_of :: "Observer \<Rightarrow> real \<Rightarrow> real \<Rightarrow> real \<times> real"
  hours :: "string \<Rightarrow> real"
  datetime :: "real \<Rightarrow> string"
  second :: real

text \<open>
  The four SLALIB routines, each returning what the Python wrapper returns:
  \<open>sla_dtf2d\<close> and \<open>sla_cldj\<close> a value and a status, \<open>sla_djcl\<close> year, month, day,
  fraction of day and a status, \<open>sla_dd2tf\<close> a sign and hour, minute, second, fraction.
\<close>

record slalib =
  sla_dtf2d :: "int \<Rightarrow> int \<Rightarrow> int \<Rightarrow> real \<times> int"
  sla_cldj :: "int \<Rightarrow> int \<Rightarrow> int \<Rightarrow> real \<times> int"
  sla_djcl :: "real \<Rightarrow> int \<times> int \<times> int \<times> real \<times> int"
  sla_dd2tf :: "nat \<Rightarrow> real \<Rightarrow> string \<times> (int \<times> int \<times> int \<times> int)"

section \<open>Strings and integers\<close>

text \<open>The slice \<open>s[a:b]\<close> of a string, for \<open>0 \<le> a \<le> b\<close>; it never raises.\<close>

definition py_slice :: "nat \<Rightarrow> nat \<Rightarrow> 'a list \<Rightarrow> 'a list" where
  "py_slice a b s = take (b - a) (drop a s)"

definition is_digit :: "char \<Rightarrow> bool" where
  "is_digit c = (c \<in> set ''0123456789'')"

definition is_space :: "char \<Rightarrow> bool" where
  "is_space c = ((of_char c :: nat) = 32 \<or> (9 \<le> (of_char c :: nat) \<and> (of_char c :: nat) \<le> 13))"

definition digit_val :: "char \<Rightarrow> nat" where
  "digit_val c = of_char c - 48"

definition dec_val :: "string \<Rightarrow> nat" where
  "dec_val s = fold (\<lambda>c n. 10 * n + digit_val c) s 0"

definition strip :: "string \<Rightarrow> string" where
  "strip s = dropWhile is_space (rev (dropWhile is_space (rev s)))"

text \<open>
  \<open>int(s)\<close> on a string: surrounding whitespace and one sign are accepted, the rest must
  be a non-empty run of decimal digits; anything else raises \<open>ValueError\<close>.
\<close>

definition int_of_string :: "string \<Rightarrow> error + int" where
  "int_of_string s =
     (let t = strip s;
          neg = (t \<noteq> [] \<and> hd t = CHR ''-'');
          body = (if t \<noteq> [] \<and> (hd t = CHR ''-'' \<or> hd t = CHR ''+'') then tl t else t)
      in if body \<noteq> [] \<and> list_all is_digit body
         then Inr (if neg then - int (dec_val body) else int (dec_val body))
         else Inl (ValueError ''invalid literal for int() with base 10''))"

text \<open>The decimal digits of a number, and the format \<open>{:wd}\<close>: right-aligned in width \<open>w\<close>.\<close>

definition digit_char :: "nat \<Rightarrow> char" where
  "digit_char d = ''0123456789'' ! d"

fun show_nat :: "nat \<Rightarrow> string" where
  "show_nat n = (if n < 10 then [digit_char n] else show_nat (n div 10) @ [digit_char (n mod 10)])"

declare show_nat.simps [simp del]

definition show_int :: "int \<Rightarrow> string" where
  "show_int i = (if i < 0 then CHR ''-'' # show_nat (nat (- i)) else show_nat (nat i))"

definition format_d :: "nat \<Rightarrow> int \<Rightarrow> string" where
  "format_d w i = replicate (w - length (show_int i)) CHR '' '' @ show_int i"

section \<open>Astronomical time conversion\<close>

text \<open>
  \<open>date_to_greg\<close>: the text of the datetime up to the first dot, with dashes and colons
  removed and the blank replaced by an underscore.
\<close>

definition date_to_greg :: "ephem \<Rightarrow> real \<Rightarrow> string" where
  "date_to_greg E d =
     map (\<lambda>c. if c = CHR '' '' then CHR ''_'' else c)
       (filter (\<lambda>c. c \<noteq> CHR ''-'' \<and> c \<noteq> CHR '':'')
          (takeWhile (\<lambda>c. c \<noteq> CHR ''.'') (datetime E d)))"

text \<open>
  \<open>greg_to_mjd\<close>: six fixed-width fields are parsed with \<open>int\<close>; the two status values
  of the library are bound to \<open>status\<close> and not read.
\<close>

definition greg_to_mjd :: "(real \<Rightarrow> real) \<Rightarrow> slalib \<Rightarrow> string \<Rightarrow> error + real" where
  "greg_to_mjd fl S greg =
     err_bind (int_of_string (py_slice 0 4 greg)) (\<lambda>year.
     err_bind (int_of_string (py_slice 4 6 greg)) (\<lambda>month.
     err_bind (int_of_string (py_slice 6 8 greg)) (\<lambda>day.
     err_bind (int_of_string (py_slice 9 11 greg)) (\<lambda>hour.
     err_bind (int_of_string (py_slice 11 13 greg)) (\<lambda>minute.
     err_bind (int_of_string (py_slice 13 15 greg)) (\<lambda>sec.
       let (fracday, status) = sla_dtf2d S hour minute sec;
           (mjd, status) = sla_cldj S year month day
       in Inr (fl (mjd + fracday))))))))"

text \<open>
  \<open>mjd_to_greg\<close>: on a bad date the source evaluates \<open>ValueError(BadMJD)\<close>; the name
  \<open>BadMJD\<close> is defined nowhere, so the exception that leaves the function is a
  \<open>NameError\<close>.
\<close>

definition mjd_to_greg :: "slalib \<Rightarrow> real \<Rightarrow> error + string" where
  "mjd_to_greg S mjd =
     (let (year, month, day, fracday, baddate) = sla_djcl S mjd
      in if baddate \<noteq> 0 then Inl (NameError ''BadMJD'')
         else
           let (sign, (hour, minute, sec, frac)) = sla_dd2tf S 2 fracday;
               s = format_d 4 year @ format_d 2 month @ format_d 2 day @ ''_''
                   @ format_d 2 hour @ format_d 2 minute @ format_d 2 sec
           in Inr (map (\<lambda>c. if c = CHR '' '' then CHR ''0'' else c) s))"

text \<open>
  A string in the format \<open>YYYYMMDD_HHMMSS\<close>: fifteen characters, an underscore at
  index 8, decimal digits elsewhere; and the six numbers it spells.
\<close>

definition greg_format :: "string \<Rightarrow> bool" where
  "greg_format g =
     (length g = 15 \<and> g ! 8 = CHR ''_''
      \<and> list_all (\<lambda>i. is_digit (g ! i)) [0, 1, 2, 3, 4, 5, 6, 7, 9, 10, 11, 12, 13, 14])"

definition greg_fields :: "string \<Rightarrow> int \<times> int \<times> int \<times> int \<times> int \<times> int" where
  "greg_fields g =
     (int (dec_val (py_slice 0 4 g)), int (dec_val (py_slice 4 6 g)),
      int (dec_val (py_slice 6 8 g)), int (dec_val (py_slice 9 11 g)),
      int (dec_val (py_slice 11 13 g)), int (dec_val (py_slice 13 15 g)))"

text \<open>
  The date of \<open>g\<close> is valid for the calendar library \<open>S\<close>: from the Modified Julian
  Date that \<open>sla_cldj\<close> and \<open>sla_dtf2d\<close> give for the six numbers, \<open>sla_djcl\<close>
  reports no bad date and, with \<open>sla_dd2tf\<close> at two decimals, gives the six numbers back.
\<close>

definition calendar_valid :: "(real \<Rightarrow> real) \<Rightarrow> slalib \<Rightarrow> string \<Rightarrow> bool" where
  "calendar_valid fl S g =
     (let (year, month, day, hour, minute, sec) = greg_fields g;
          mjd = fl (fst (sla_cldj S year month day) + fst (sla_dtf2d S hour minute sec));
          (year', month', day', fracday, baddate) = sla_djcl S mjd;
          (sign, (hour', minute', sec', frac)) = sla_dd2tf S 2 fracday
      in baddate = 0
         \<and> (year', month', day', hour', minute', sec') = (year, month, day, hour, minute, sec))"

definition date_to_mjd :: "(real \<Rightarrow> real) \<Rightarrow> slalib \<Rightarrow> ephem \<Rightarrow> real \<Rightarrow> error + real" where
  "date_to_mjd fl S E d = greg_to_mjd fl S (date_to_greg E d)"

section \<open>The scanning strategy\<close>

text \<open>The module constants \<open>radToDeg = 180. / np.pi\<close> and \<open>sidDayToSec = 86164.0905\<close>.\<close>

definition radToDeg :: "(real \<Rightarrow> real) \<Rightarrow> real" where
  "radToDeg fl = fl (180 / np_pi)"

definition sidDayToSec :: "(real \<Rightarrow> real) \<Rightarrow> real" where
  "sidDayToSec fl = fl 86164.0905"

text \<open>
  The attributes of a \<open>ScanningStrategy\<close> instance. The attributes that
  \<open>define_boundary_of_scan\<close> sets are empty until it has run.
\<close>

record ScanningStrategy =
  nces :: int
  start_date :: string
  name_strategy :: string
  sampling_freq :: real
  sky_speed :: real
  language :: string
  ut1utc_fn :: string
  telescope_location :: Observer
  allowed_scanning_strategies :: "string list"
  elevation :: "real list"
  az_min :: "real list"
  az_max :: "real list"
  begin_LST :: "string list"
  end_LST :: "string list"
  ra_mid :: real
  dec_mid :: real

text \<open>\<open>now\<close> is the date a fresh \<open>ephem.Observer()\<close> starts with.\<close>

definition define_telescope_location :: "real \<Rightarrow> string \<Rightarrow> string \<Rightarrow> real \<Rightarrow> Observer" where
  "define_telescope_location now telescope_longitude telescope_latitude telescope_elevation =
     \<lparr>long = telescope_longitude, lat = telescope_latitude, elev = telescope_elevation,
      date = now\<rparr>"

text \<open>The decimal literals of the boundaries are floats: each is rounded.\<close>

definition define_boundary_of_scan ::
  "(real \<Rightarrow> real) \<Rightarrow> ScanningStrategy \<Rightarrow> error + ScanningStrategy" where
  "define_boundary_of_scan fl self =
     (let self = self\<lparr>allowed_scanning_strategies := [''deep_patch'']\<rparr>
      in if name_strategy self = ''deep_patch''
         then Inr (self\<lparr>
           elevation := map fl [30.0, 45.5226, 47.7448, 49.967,
                                52.1892, 54.4114, 56.6336, 58.8558,
                                61.078, 63.3002, 65.5226, 35.2126],
           az_min := map fl [134.2263, 162.3532, 162.3532, 162.3532,
                             162.3532, 162.3532, 162.3532, 162.3532,
                             162.3532, 162.3532, 162.3532, 204.7929],
           az_max := map fl [154.2263, 197.3532, 197.3532, 197.3532,
                             197.3532, 197.3532, 197.3532, 197.3532,
                             197.3532, 197.3532, 197.3532, 224.7929],
           begin_LST := [''17:07:54.84'', ''22:00:21.76'', ''22:00:21.76'',
                         ''22:00:21.76'', ''22:00:21.76'', ''22:00:21.76'',
                         ''22:00:21.76'', ''22:00:21.76'', ''22:00:21.76'',
                         ''22:00:21.76'', ''22:00:21.76'', ''2:01:01.19''],
           end_LST := [''22:00:21.76'', ''02:01:01.19'', ''02:01:01.19'',
                       ''02:01:01.19'', ''02:01:01.19'', ''02:01:01.19'',
                       ''02:01:01.19'', ''02:01:01.19'', ''02:01:01.19'',
                       ''02:01:01.19'', ''02:01:01.19'', ''6:53:29.11''],
           ra_mid := 0,
           dec_mid := fl (- 57.5)\<rparr>)
         else Inl (ValueError (''Only name_strategy = deep_patch is ''
                     @ ''currently available. For a custom usage ''
                     @ ''(advanced users), modify this routine.'')))"

text \<open>The constructor \<open>__init__\<close>: it stores its arguments, defines the site and the boundaries.\<close>

definition ScanningStrategy_init ::
  "(real \<Rightarrow> real) \<Rightarrow> real \<Rightarrow> int \<Rightarrow> string \<Rightarrow> string \<Rightarrow> string \<Rightarrow> real \<Rightarrow> string \<Rightarrow> real \<Rightarrow> real \<Rightarrow>
   string \<Rightarrow> string \<Rightarrow> error + ScanningStrategy" where
  "ScanningStrategy_init fl now nces' start_date' telescope_longitude telescope_latitude
       telescope_elevation name_strategy' sampling_freq' sky_speed' ut1utc_fn' language' =
     define_boundary_of_scan fl
       \<lparr>nces = nces', start_date = start_date', name_strategy = name_strategy',
        sampling_freq = sampling_freq', sky_speed = sky_speed', language = language',
        ut1utc_fn = ut1utc_fn',
        telescope_location =
          define_telescope_location now telescope_longitude telescope_latitude
            telescope_elevation,
        allowed_scanning_strategies = [], elevation = [], az_min = [], az_max = [],
        begin_LST = [], end_LST = [], ra_mid = 0, dec_mid = 0\<rparr>"

subsection \<open>One constant elevation scan\<close>

text \<open>
  The output dictionary \<open>scan_file\<close> maps string keys to numbers and arrays.
\<close>

datatype pyval = PyFloat real | PyInt int | PyArray "real list"

type_synonym scan_file = "string \<rightharpoonup> pyval"

text \<open>The variables that the sample loop of \<open>run_one_scan\<close> reads and writes.\<close>

record loop_state =
  running_az :: real
  pb_az_dir :: real
  pb_az_array :: "real list"
  pb_mjd_array :: "real list"
  pb_ra_array :: "real list"
  pb_dec_array :: "real list"
  loc :: Observer

text \<open>
  The direction after the reversal test, and the azimuth after one step
  \<open>running_az += az_speed * pb_az_dir / sampling_freq\<close>.
\<close>

definition next_dir :: "real \<Rightarrow> real \<Rightarrow> real \<Rightarrow> real \<Rightarrow> real" where
  "next_dir upper_az lower_az running_az' pb_az_dir' =
     (if running_az' > upper_az then - 1
      else if running_az' < lower_az then 1
      else pb_az_dir')"

definition az_step :: "(real \<Rightarrow> real) \<Rightarrow> real \<Rightarrow> real \<Rightarrow> real \<Rightarrow> real \<Rightarrow> real" where
  "az_step fl az_speed sampling_freq' running_az' pb_az_dir' =
     fl (running_az' + fl (fl (az_speed * pb_az_dir') / sampling_freq'))"

text \<open>
  One pass of the Python loop body, for sample \<open>t\<close>. The loop runs over
  \<open>range(1, num_pts)\<close> on arrays of length \<open>num_pts\<close>, so every index is in range.
\<close>

definition python_step ::
  "(real \<Rightarrow> real) \<Rightarrow> ephem \<Rightarrow> real \<Rightarrow> real \<Rightarrow> real \<Rightarrow> real \<Rightarrow> real list \<Rightarrow> nat \<Rightarrow> loop_state \<Rightarrow>
   loop_state" where
  "python_step fl E upper_az lower_az az_speed sampling_freq' pb_el_array t st =
     (let az = (pb_az_array st)[t := running_az st];
          (ra, dec) = radec_of E (loc st) (fl (fl (az ! t * np_pi) / 180))
                        (fl (fl (pb_el_array ! t * np_pi) / 180));
          dir = next_dir upper_az lower_az (running_az st) (pb_az_dir st)
      in st\<lparr>pb_az_array := az,
            pb_ra_array := (pb_ra_array st)[t := ra],
            pb_dec_array := (pb_dec_array st)[t := dec],
            pb_az_dir := dir,
            running_az := az_step fl az_speed sampling_freq' (running_az st) dir,
            pb_mjd_array := (pb_mjd_array st)[t := fl (pb_mjd_array st ! (t - 1)
                                                       + fl (second E / sampling_freq'))],
            loc := (loc st)\<lparr>date := fl (date (loc st) + fl (second E / sampling_freq'))\<rparr>\<rparr>)"

text \<open>
  One pass of the loop of the inlined C kernel: azimuth and time only. \<open>second'\<close> is
  the local \<open>second = 1./24./3600.\<close> of the compiled branches.
\<close>

definition C_step ::
  "(real \<Rightarrow> real) \<Rightarrow> real \<Rightarrow> real \<Rightarrow> real \<Rightarrow> real \<Rightarrow> real \<Rightarrow> nat \<Rightarrow> loop_state \<Rightarrow> loop_state" where
  "C_step fl second' upper_az lower_az az_speed sampling_freq' t st =
     (let dir = next_dir upper_az lower_az (running_az st) (pb_az_dir st)
      in st\<lparr>pb_az_array := (pb_az_array st)[t := running_az st],
            pb_az_dir := dir,
            running_az := az_step fl az_speed sampling_freq' (running_az st) dir,
            pb_mjd_array := (pb_mjd_array st)[t := fl (pb_mjd_array st ! (t - 1)
                                                       + fl (second' / sampling_freq'))]\<rparr>)"

text \<open>
  Modelled from the spec: the compiled Fortran routine
  \<open>scanning_strategy_f.run_one_scan_f\<close> is not among the Python sources. The three
  backends must produce equivalent azimuth and timestamp arrays for identical inputs, so
  the routine is the stepping of the C kernel on the two arrays it is given.
\<close>

definition run_one_scan_f ::
  "(real \<Rightarrow> real) \<Rightarrow> real \<Rightarrow> real \<Rightarrow> real \<Rightarrow> real \<Rightarrow> real \<Rightarrow> nat \<Rightarrow> loop_state \<Rightarrow> loop_state" where
  "run_one_scan_f fl second' upper_az lower_az az_speed sampling_freq' num_pts st =
     (let st' = fold (C_step fl second' upper_az lower_az az_speed sampling_freq')
                  [1..<num_pts] st
      in st\<lparr>pb_az_array := pb_az_array st', pb_mjd_array := pb_mjd_array st'\<rparr>)"

text \<open>
  The sample loop by backend. A \<open>language\<close> that is none of the three runs no loop.
\<close>

definition scan_loop ::
  "(real \<Rightarrow> real) \<Rightarrow> ephem \<Rightarrow> string \<Rightarrow> real \<Rightarrow> real \<Rightarrow> real \<Rightarrow> real \<Rightarrow> real list \<Rightarrow> nat \<Rightarrow>
   loop_state \<Rightarrow> loop_state" where
  "scan_loop fl E language' upper_az lower_az az_speed sampling_freq' pb_el_array num_pts st =
     (if language' = ''python''
      then fold (python_step fl E upper_az lower_az az_speed sampling_freq' pb_el_array)
             [1..<num_pts] st
      else if language' = ''C''
      then fold (C_step fl (fl (fl (1 / 24) / 3600)) upper_az lower_az az_speed sampling_freq')
             [1..<num_pts] st
      else if language' = ''fortran''
      then run_one_scan_f fl (fl (fl (1 / 24) / 3600)) upper_az lower_az az_speed
             sampling_freq' num_pts st
      else st)"

text \<open>
  The sidereal-time bounds of a slot as fractions of a day, the date the cursor is reset
  to, and the number of samples, as \<open>run_one_scan\<close> computes them.
\<close>

definition LST_bounds :: "(real \<Rightarrow> real) \<Rightarrow> ephem \<Rightarrow> ScanningStrategy \<Rightarrow> nat \<Rightarrow> real \<times> real" where
  "LST_bounds fl E self scan_number =
     (let begin_LST' = fl (hours E (begin_LST self ! scan_number) / fl (2 * np_pi));
          end_LST' = fl (hours E (end_LST self ! scan_number) / fl (2 * np_pi))
      in (if begin_LST' > end_LST' then fl (begin_LST' - 1) else begin_LST', end_LST'))"

definition reset_date :: "(real \<Rightarrow> real) \<Rightarrow> ephem \<Rightarrow> ScanningStrategy \<Rightarrow> nat \<Rightarrow> real" where
  "reset_date fl E self scan_number =
     (let LST_now = fl (sidereal_time E (telescope_location self) / fl (2 * np_pi));
          (begin_LST', end_LST') = LST_bounds fl E self scan_number
      in fl (date (telescope_location self)
             - fl (fl (fl (LST_now - begin_LST') * sidDayToSec fl) * second E)))"

definition num_pts_of :: "(real \<Rightarrow> real) \<Rightarrow> ephem \<Rightarrow> ScanningStrategy \<Rightarrow> nat \<Rightarrow> int" where
  "num_pts_of fl E self scan_number =
     (let (begin_LST', end_LST') = LST_bounds fl E self scan_number
      in py_int (fl (fl (fl (end_LST' - begin_LST') * sidDayToSec fl) * sampling_freq self)))"

text \<open>
  The geometry of a slot: the cosine of the elevation, the centre and the throw of the
  azimuth window, its two bounds, and the azimuth speed.
\<close>

definition cos_el :: "(real \<Rightarrow> real) \<Rightarrow> ScanningStrategy \<Rightarrow> nat \<Rightarrow> real" where
  "cos_el fl self scan_number = np_cos fl (fl (elevation self ! scan_number / radToDeg fl))"

definition az_mean_of :: "(real \<Rightarrow> real) \<Rightarrow> ScanningStrategy \<Rightarrow> nat \<Rightarrow> real" where
  "az_mean_of fl self scan_number =
     fl (fl (az_min self ! scan_number + az_max self ! scan_number) * 0.5)"

definition az_throw_of :: "(real \<Rightarrow> real) \<Rightarrow> ScanningStrategy \<Rightarrow> nat \<Rightarrow> real" where
  "az_throw_of fl self scan_number =
     fl (fl (az_max self ! scan_number - az_min self ! scan_number) / cos_el fl self scan_number)"

definition upper_az_of :: "(real \<Rightarrow> real) \<Rightarrow> ScanningStrategy \<Rightarrow> nat \<Rightarrow> real" where
  "upper_az_of fl self scan_number =
     fl (az_mean_of fl self scan_number + fl (az_throw_of fl self scan_number / 2))"

definition lower_az_of :: "(real \<Rightarrow> real) \<Rightarrow> ScanningStrategy \<Rightarrow> nat \<Rightarrow> real" where
  "lower_az_of fl self scan_number =
     fl (az_mean_of fl self scan_number - fl (az_throw_of fl self scan_number / 2))"

definition az_speed_of :: "(real \<Rightarrow> real) \<Rightarrow> ScanningStrategy \<Rightarrow> nat \<Rightarrow> real" where
  "az_speed_of fl self scan_number = fl (sky_speed self / cos_el fl self scan_number)"

text \<open>
  \<open>run_one_scan\<close> returns the filled dictionary and the instance with its advanced date
  cursor (the Python function returns \<open>True\<close> and mutates both). A slot index outside the
  boundary lists raises \<open>IndexError\<close>; \<open>np.zeros\<close> of a negative count raises
  \<open>ValueError\<close>; with no sample the first assignment \<open>pb_az_array[0]\<close> raises
  \<open>IndexError\<close>. The divisions by the cosine of the elevation and by the sampling
  frequency are divisions between floats. With \<open>silent\<close> false the two bounds are
  printed through \<open>mjd_to_greg\<close>, which can raise.
\<close>

definition run_one_scan ::
  "(real \<Rightarrow> real) \<Rightarrow> slalib \<Rightarrow> ephem \<Rightarrow> ScanningStrategy \<Rightarrow> scan_file \<Rightarrow> nat \<Rightarrow> bool \<Rightarrow>
     error + (scan_file \<times> ScanningStrategy)" where
  "run_one_scan fl S E self scan_file' scan_number silent =
     (if \<not> (scan_number < length (elevation self) \<and> scan_number < length (az_min self)
            \<and> scan_number < length (az_max self) \<and> scan_number < length (begin_LST self)
            \<and> scan_number < length (end_LST self))
      then Inl IndexError
      else if cos_el fl self scan_number = 0 then Inl NotFinite
      else
        let el = elevation self ! scan_number;
            sampling_freq' = sampling_freq self;
            az_mean = az_mean_of fl self scan_number;
            loc0 = (telescope_location self)\<lparr>date := reset_date fl E self scan_number\<rparr>;
            num_pts = num_pts_of fl E self scan_number;
            pb_az_dir' = 1;
            upper_az = upper_az_of fl self scan_number;
            lower_az = lower_az_of fl self scan_number;
            az_speed = az_speed_of fl self scan_number;
            running_az' = az_mean
        in if num_pts < 0 then Inl (ValueError ''negative dimensions are not allowed'')
           else if num_pts = 0 then Inl IndexError
           else
             let n = nat num_pts;
                 pb_el_array = replicate n (fl (1 * el));
                 time_padding = fl (10.0 / 86400.0)
             in err_bind (date_to_mjd fl S E (date loc0)) (\<lambda>mjd0.
                if sampling_freq' = 0 then Inl NotFinite
                else
                  let st0 = \<lparr>running_az = az_step fl az_speed sampling_freq' running_az'
                                            pb_az_dir',
                             pb_az_dir = pb_az_dir',
                             pb_az_array = (replicate n 0)[0 := running_az'],
                             pb_mjd_array = (replicate n 0)[0 := mjd0],
                             pb_ra_array = replicate n 0,
                             pb_dec_array = replicate n 0,
                             loc = loc0\<lparr>date := fl (date loc0
                                                      + fl (second E / sampling_freq'))\<rparr>\<rparr>;
                      firstmjd = fl (pb_mjd_array st0 ! 0 - time_padding);
                      st = scan_loop fl E (language self) upper_az lower_az az_speed
                             sampling_freq' pb_el_array n st0;
                      loc1 = (loc st)\<lparr>date := fl (date (loc st)
                                  + fl (fl (of_int num_pts * second E) / sampling_freq'))\<rparr>;
                      lastmjd = fl (last (pb_mjd_array st) + time_padding);
                      scan_file'' = scan_file'(
                        ''firstmjd'' \<mapsto> PyFloat firstmjd,
                        ''nces'' \<mapsto> PyInt (nces self),
                        ''CES'' \<mapsto> PyInt (int scan_number),
                        ''sample_rate'' \<mapsto> PyFloat sampling_freq',
                        ''sky_speed'' \<mapsto> PyFloat (sky_speed self),
                        ''lastmjd'' \<mapsto> PyFloat lastmjd,
                        ''azimuth'' \<mapsto> PyArray (map (\<lambda>a. fl (fl (a * np_pi) / 180))
                                                (pb_az_array st)),
                        ''elevation'' \<mapsto> PyArray (map (\<lambda>a. fl (fl (a * np_pi) / 180))
                                                  pb_el_array),
                        ''clock-utc'' \<mapsto> PyArray (pb_mjd_array st),
                        ''RA'' \<mapsto> PyArray (pb_ra_array st),
                        ''Dec'' \<mapsto> PyArray (pb_dec_array st),
                        ''nts'' \<mapsto> PyInt (int (length (pb_mjd_array st))))
                  in err_bind
                       (if silent then Inr ()
                        else err_bind (mjd_to_greg S firstmjd) (\<lambda>first_greg.
                             err_bind (mjd_to_greg S lastmjd) (\<lambda>last_greg. Inr ())))
                       (\<lambda>printed.
                          Inr (scan_file'',
                               self\<lparr>telescope_location :=
                                      loc1\<lparr>date := fl (date loc1
                                                         + fl (fl (24 * second E) * 3600))\<rparr>\<rparr>))))"

section \<open>Focal-plane convolution\<close>

text \<open>
  What \<open>convolve_focalplane\<close> calls from \<open>healpy\<close>: \<open>npix2nside\<close> (it raises on a size
  that is no map size), \<open>nside2resol\<close> in arcminutes, \<open>pix2ang\<close>, and \<open>ang2pix\<close> for one
  direction (it raises on a colatitude outside its range).
\<close>

record healpy =
  npix2nside :: "nat \<Rightarrow> error + nat"
  nside2resol :: "nat \<Rightarrow> real"
  pix2ang :: "nat \<Rightarrow> nat \<Rightarrow> real \<times> real"
  ang2pix :: "nat \<Rightarrow> real \<Rightarrow> real \<Rightarrow> error + nat"

text \<open>
  The footprint: the grid \<open>x_fp\<close>, \<open>y_fp\<close> runs over \<open>-fp_rad_bins .. fp_rad_bins\<close> in
  both directions, row by row, and \<open>fp_map\<close> keeps the cells strictly inside the disc.
\<close>

definition fp_offsets :: "int \<Rightarrow> (int \<times> int) list" where
  "fp_offsets fp_rad_bins =
     [(x, y). x \<leftarrow> [- fp_rad_bins..fp_rad_bins], y \<leftarrow> [- fp_rad_bins..fp_rad_bins],
              x\<^sup>2 + y\<^sup>2 < fp_rad_bins\<^sup>2]"

text \<open>
  The compiled loop \<open>focalplane_nhits[pix] += bore_nhits[n] * bolo_per_pix * boost\<close> over
  \<open>pixels\<close>, one addition per entry of \<open>pixels\<close>, repeated or not. A pixel index outside
  the map would be a write outside the array; the model stops there with \<open>IndexError\<close>.
\<close>

definition accumulate ::
  "(real \<Rightarrow> real) \<Rightarrow> real \<Rightarrow> nat list \<Rightarrow> real list \<Rightarrow> error + real list" where
  "accumulate fl v pixels focalplane_nhits =
     fold_err (\<lambda>pix acc. if pix < length acc then Inr (acc[pix := fl (acc ! pix + v)])
                          else Inl IndexError)
       pixels focalplane_nhits"

text \<open>
  The body of \<open>for n in pixels_global\<close>. \<open>convolve_focalplane_f\<close> is the compiled
  Fortran kernel, a parameter. A \<open>language\<close> outside the three accumulates nothing.
\<close>

definition convolve_pixel ::
  "(real \<Rightarrow> real) \<Rightarrow> healpy \<Rightarrow>
   (real list \<Rightarrow> real list \<Rightarrow> nat list \<Rightarrow> real \<Rightarrow> real \<Rightarrow> real list) \<Rightarrow> string \<Rightarrow> nat \<Rightarrow>
   real list \<Rightarrow> real list \<Rightarrow> real list \<Rightarrow> real \<Rightarrow> real \<Rightarrow> nat \<Rightarrow> real list \<Rightarrow> error + real list" where
  "convolve_pixel fl H convolve_focalplane_f language' nside bore_nhits dRA dDec bolo_per_pix
       boost n focalplane_nhits =
     (let (theta_bore, phi_bore) = pix2ang H nside n;
          phi = map (\<lambda>d. fl (phi_bore + fl (d * np_sin fl theta_bore))) dRA;
          theta = map (\<lambda>d. fl (theta_bore + d)) dDec
      in err_bind (sequence_err (map2 (ang2pix H nside) theta phi)) (\<lambda>pixels.
           if language' \<in> set [''python'', ''C'']
           then accumulate fl (fl (fl (bore_nhits ! n * bolo_per_pix) * boost)) pixels
                  focalplane_nhits
           else if language' = ''fortran''
           then Inr (convolve_focalplane_f bore_nhits focalplane_nhits pixels bolo_per_pix boost)
           else Inr focalplane_nhits))"

text \<open>
  \<open>convolve_focalplane\<close>. A zero resolution makes \<open>fp_radius_amin * 2. / resol_amin\<close>
  infinite or undefined, and \<open>int\<close> of that raises. A negative \<open>fp_rad_bins\<close> gives a
  negative grid dimension, which numpy rejects; an empty footprint makes
  \<open>nbolos / float(np.sum(fp_map))\<close> a division by zero.
\<close>

definition convolve_focalplane ::
  "(real \<Rightarrow> real) \<Rightarrow> healpy \<Rightarrow>
   (real list \<Rightarrow> real list \<Rightarrow> nat list \<Rightarrow> real \<Rightarrow> real \<Rightarrow> real list) \<Rightarrow>
   real list \<Rightarrow> int \<Rightarrow> real \<Rightarrow> real \<Rightarrow> string \<Rightarrow> error + real list" where
  "convolve_focalplane fl H convolve_focalplane_f bore_nhits nbolos fp_radius_amin boost
       language' =
     (let focalplane_nhits = replicate (length bore_nhits) 0
      in err_bind (npix2nside H (length focalplane_nhits)) (\<lambda>nside.
           let resol_amin = nside2resol H nside
           in if resol_amin = 0
              then (if fl (fp_radius_amin * 2) = 0
                    then Inl (ValueError ''cannot convert float NaN to integer'')
                    else Inl OverflowError)
              else
                let fp_rad_bins = py_int (fl (fl (fp_radius_amin * 2) / resol_amin))
                in if fp_rad_bins < 0
                   then Inl (ValueError ''negative dimensions are not allowed'')
                   else
                     let fp = fp_offsets fp_rad_bins
                     in if length fp = 0 then Inl ZeroDivisionError
                        else
                          let bolo_per_pix = fl (of_int nbolos / of_nat (length fp));
                              scale = fl (fl (of_int fp_rad_bins * 60) * fl (180 / np_pi));
                              dRA = map (\<lambda>(x, y). fl (fl (of_int x * fp_radius_amin) / scale))
                                      fp;
                              dDec = map (\<lambda>(x, y). fl (fl (of_int y * fp_radius_amin) / scale))
                                       fp;
                              pixels_global = filter (\<lambda>n. bore_nhits ! n \<noteq> 0)
                                                [0..<length bore_nhits]
                          in fold_err (convolve_pixel fl H convolve_focalplane_f language' nside
                                         bore_nhits dRA dDec bolo_per_pix boost)
                               pixels_global focalplane_nhits))"

section \<open>Properties of the floating-point rounding\<close>

lemma pow2_powr: "pow2 e = 2 powr (of_int e)"
  by (simp add: pow2_def powr_real_of_int field_simps)

lemma pow2_pos [simp]: "0 < pow2 e"
  by (simp add: pow2_powr)

lemma abs_pow2 [simp]: "\<bar>pow2 e\<bar> = pow2 e"
  using pow2_pos[of e] by linarith

lemma pow2_add: "pow2 (a + b) = pow2 a * pow2 b"
  by (simp add: pow2_powr powr_add)

lemma pow2_mono: "a \<le> b \<Longrightarrow> pow2 a \<le> pow2 b"
  by (simp add: pow2_powr)

lemma pow2_Suc: "pow2 (e + 1) = 2 * pow2 e"
  by (simp add: pow2_add) (simp add: pow2_def)

lemma floor_log2: "0 < x \<Longrightarrow> pow2 k \<le> x \<Longrightarrow> x < pow2 (k + 1) \<Longrightarrow> \<lfloor>log 2 x\<rfloor> = k"
  using floor_log_eq_powr_iff[of x 2 k] by (simp add: pow2_powr)

lemma binary64_zero [simp]: "binary64 0 = 0"
  by (simp add: binary64_def)

text \<open>Evaluation of \<open>binary64\<close> once the exponent of the argument is known.\<close>

lemma binary64_eval:
  assumes "pow2 (e + 52) \<le> \<bar>x\<bar>" and "\<bar>x\<bar> < pow2 (e + 53)"
  shows "binary64 x = of_int (round_half_even (x / pow2 e)) * pow2 e"
proof -
  have pos: "0 < \<bar>x\<bar>" using assms(1) pow2_pos[of "e + 52"] by linarith
  have "\<lfloor>log 2 \<bar>x\<bar>\<rfloor> = e + 52"
    using floor_log2[of "\<bar>x\<bar>" "e + 52"] assms pos by (simp add: add.commute add.left_commute)
  then show ?thesis using pos by (simp add: binary64_def)
qed

lemma binary64_form:
  assumes "x \<noteq> 0"
  defines "e \<equiv> \<lfloor>log 2 \<bar>x\<bar>\<rfloor> - 52"
  shows "binary64 x = of_int (round_half_even (x / pow2 e)) * pow2 e"
    and "pow2 (e + 52) \<le> \<bar>x\<bar>" and "\<bar>x\<bar> < pow2 (e + 53)"
proof -
  show "binary64 x = of_int (round_half_even (x / pow2 e)) * pow2 e"
    using assms by (simp add: binary64_def Let_def)
  have pos: "0 < \<bar>x\<bar>" using assms by simp
  have "\<lfloor>log 2 \<bar>x\<bar>\<rfloor> = e + 52" by (simp add: e_def)
  then have "2 powr (of_int (e + 52)) \<le> \<bar>x\<bar> \<and> \<bar>x\<bar> < 2 powr (of_int (e + 52) + 1)"
    using floor_log_eq_powr_iff[of "\<bar>x\<bar>" 2 "e + 52"] pos by simp
  then show "pow2 (e + 52) \<le> \<bar>x\<bar>" and "\<bar>x\<bar> < pow2 (e + 53)"
    by (simp_all add: pow2_powr add.commute)
qed

lemma rhe_int [simp]: "round_half_even (of_int m) = m"
  by (simp add: round_half_even_def)

lemma rhe_minus: "round_half_even (- y) = - round_half_even y"
proof (cases "y = of_int \<lfloor>y\<rfloor>")
  case True
  then have "round_half_even y = \<lfloor>y\<rfloor>" using rhe_int[of "\<lfloor>y\<rfloor>"] by simp
  moreover have "round_half_even (- y) = - \<lfloor>y\<rfloor>" using rhe_int[of "- \<lfloor>y\<rfloor>"] True by simp
  ultimately show ?thesis by simp
next
  case False
  then have fl: "\<lfloor>- y\<rfloor> = - \<lfloor>y\<rfloor> - 1"
    by (simp add: floor_minus ceiling_altdef)
  have "of_int \<lfloor>y\<rfloor> \<le> y" by simp
  with False have fr0: "of_int \<lfloor>y\<rfloor> < y" by linarith
  have fr1: "y < of_int \<lfloor>y\<rfloor> + 1" by linarith
  define f where "f = \<lfloor>y\<rfloor>"
  have ev: "even (- f - 1) \<longleftrightarrow> odd f" by simp
  show ?thesis
    unfolding round_half_even_def Let_def fl
    using fr0 fr1 unfolding f_def[symmetric]
    by (simp add: ev)
qed

lemma rhe_mono: "a \<le> b \<Longrightarrow> round_half_even a \<le> round_half_even b"
proof -
  assume ab: "a \<le> b"
  have ra: "round_half_even a \<le> \<lfloor>a\<rfloor> + 1" and rb: "\<lfloor>b\<rfloor> \<le> round_half_even b"
    by (simp_all add: round_half_even_def Let_def)
  have fl: "\<lfloor>a\<rfloor> \<le> \<lfloor>b\<rfloor>" using ab by (rule floor_mono)
  show ?thesis
  proof (cases "\<lfloor>a\<rfloor> = \<lfloor>b\<rfloor>")
    case True
    then show ?thesis using ab unfolding round_half_even_def Let_def by auto
  next
    case False
    then show ?thesis using fl ra rb by linarith
  qed
qed

lemma binary64_minus: "binary64 (- x) = - binary64 x"
  by (simp add: binary64_def Let_def rhe_minus)

text \<open>Numbers with a significand of at most 53 bits are not changed.\<close>

lemma binary64_normal:
  assumes "2 ^ 52 \<le> \<bar>m\<bar>" and "\<bar>m\<bar> < 2 ^ 53"
  shows "binary64 (of_int m * pow2 e) = of_int m * pow2 e"
proof -
  have a: "\<bar>of_int m * pow2 e\<bar> = of_int \<bar>m\<bar> * pow2 e" by (simp add: abs_mult)
  have "(2::real) ^ 52 \<le> of_int \<bar>m\<bar>"
    using assms(1) by (metis of_int_le_iff of_int_numeral of_int_power)
  then have 1: "pow2 (e + 52) \<le> \<bar>of_int m * pow2 e\<bar>"
    unfolding a by (simp add: pow2_add mult.commute) (simp add: pow2_def)
  have "of_int \<bar>m\<bar> < (2::real) ^ 53"
    using assms(2) by (metis of_int_less_iff of_int_numeral of_int_power)
  then have 2: "\<bar>of_int m * pow2 e\<bar> < pow2 (e + 53)"
    unfolding a by (simp add: pow2_add mult.commute) (simp add: pow2_def)
  show ?thesis using binary64_eval[OF 1 2] by simp
qed

lemma binary64_dyadic_aux:
  "m \<noteq> 0 \<Longrightarrow> \<bar>m\<bar> < 2 ^ 53 \<Longrightarrow> nat (2 ^ 53 - \<bar>m\<bar>) = n \<Longrightarrow>
     binary64 (of_int m * pow2 e) = of_int m * pow2 e"
proof (induction n arbitrary: m e rule: less_induct)
  case (less n)
  show ?case
  proof (cases "2 ^ 52 \<le> \<bar>m\<bar>")
    case True
    then show ?thesis using less.prems by (intro binary64_normal) simp_all
  next
    case False
    then have small: "\<bar>m\<bar> < 2 ^ 52" by simp
    have eq: "of_int (2 * m) * pow2 (e - 1) = of_int m * pow2 e"
      using pow2_Suc[of "e - 1"] by simp
    have "binary64 (of_int (2 * m) * pow2 (e - 1)) = of_int (2 * m) * pow2 (e - 1)"
    proof (rule less.IH[of "nat (2 ^ 53 - \<bar>2 * m\<bar>)"])
      show "nat (2 ^ 53 - \<bar>2 * m\<bar>) < n" using less.prems small by (simp add: abs_mult)
      show "2 * m \<noteq> 0" using less.prems by simp
      show "\<bar>2 * m\<bar> < 2 ^ 53" using small by (simp add: abs_mult)
    qed simp
    then show ?thesis unfolding eq .
  qed
qed

lemma binary64_dyadic:
  "\<bar>m\<bar> \<le> 2 ^ 53 \<Longrightarrow> binary64 (of_int m * pow2 e) = of_int m * pow2 e"
proof -
  assume a: "\<bar>m\<bar> \<le> 2 ^ 53"
  consider "m = 0" | "m \<noteq> 0" "\<bar>m\<bar> < 2 ^ 53" | "m = 2 ^ 53" | "m = - (2 ^ 53)"
    using a by (cases "m < 0") (auto, linarith+)
  then show ?thesis
  proof cases
    case 1
    then show ?thesis by simp
  next
    case 2
    then show ?thesis using binary64_dyadic_aux by blast
  next
    case 3
    have "of_int m * pow2 e = of_int 1 * pow2 (e + 53)"
      unfolding 3 by (simp add: pow2_add) (simp add: pow2_def)
    moreover have "binary64 (of_int 1 * pow2 (e + 53)) = of_int 1 * pow2 (e + 53)"
      by (rule binary64_dyadic_aux[of 1 _ "e + 53"]) simp_all
    ultimately show ?thesis by simp
  next
    case 4
    have "of_int m * pow2 e = of_int (- 1) * pow2 (e + 53)"
      unfolding 4 by (simp add: pow2_add) (simp add: pow2_def)
    moreover have "binary64 (of_int (- 1) * pow2 (e + 53)) = of_int (- 1) * pow2 (e + 53)"
      by (rule binary64_dyadic_aux[of "- 1" _ "e + 53"]) simp_all
    ultimately show ?thesis by simp
  qed
qed

lemma binary64_pos_bounds:
  assumes "0 < x"
  defines "e \<equiv> \<lfloor>log 2 \<bar>x\<bar>\<rfloor> - 52"
  shows "pow2 (e + 52) \<le> binary64 x" and "binary64 x \<le> pow2 (e + 53)"
    and "\<bar>round_half_even (x / pow2 e)\<bar> \<le> 2 ^ 53"
proof -
  have nz: "x \<noteq> 0" using assms by simp
  note f = binary64_form[OF nz, folded e_def]
  have q: "2 ^ 52 \<le> x / pow2 e" "x / pow2 e < 2 ^ 53"
    using f(2,3) assms(1) by (simp_all add: pow2_add field_simps) (simp_all add: pow2_def)
  have "round_half_even (of_int (2 ^ 52)) \<le> round_half_even (x / pow2 e)"
    using q by (intro rhe_mono) simp
  then have lo: "2 ^ 52 \<le> round_half_even (x / pow2 e)" by (simp only: rhe_int)
  have "round_half_even (x / pow2 e) \<le> round_half_even (of_int (2 ^ 53))"
    using q by (intro rhe_mono) simp
  then have hi: "round_half_even (x / pow2 e) \<le> 2 ^ 53" by (simp only: rhe_int)
  show "\<bar>round_half_even (x / pow2 e)\<bar> \<le> 2 ^ 53" using lo hi by simp
  have "(2::real) ^ 52 \<le> of_int (round_half_even (x / pow2 e))"
    using lo by (metis of_int_le_iff of_int_numeral of_int_power)
  then have "2 ^ 52 * pow2 e \<le> of_int (round_half_even (x / pow2 e)) * pow2 e"
    by (simp add: mult_right_mono)
  then show "pow2 (e + 52) \<le> binary64 x"
    unfolding f(1) by (simp add: pow2_add mult.commute) (simp add: pow2_def)
  have "of_int (round_half_even (x / pow2 e)) \<le> (2::real) ^ 53"
    using hi by (metis of_int_le_iff of_int_numeral of_int_power)
  then have "of_int (round_half_even (x / pow2 e)) * pow2 e \<le> 2 ^ 53 * pow2 e"
    by (simp add: mult_right_mono)
  then show "binary64 x \<le> pow2 (e + 53)"
    unfolding f(1) by (simp add: pow2_add mult.commute) (simp add: pow2_def)
qed

lemma binary64_pos: "0 < x \<Longrightarrow> 0 < binary64 x"
  using binary64_pos_bounds(1)[of x] pow2_pos[of "\<lfloor>log 2 \<bar>x\<bar>\<rfloor> - 52 + 52"] by linarith

lemma binary64_idem_pos: "0 < x \<Longrightarrow> binary64 (binary64 x) = binary64 x"
proof -
  assume x: "0 < x"
  then have nz: "x \<noteq> 0" by simp
  show ?thesis
    unfolding binary64_form(1)[OF nz]
    by (rule binary64_dyadic) (rule binary64_pos_bounds(3)[OF x])
qed

lemma binary64_idem: "binary64 (binary64 x) = binary64 x"
proof -
  consider "0 < x" | "x = 0" | "x < 0" by linarith
  then show ?thesis
  proof cases
    case 1
    then show ?thesis by (rule binary64_idem_pos)
  next
    case 2
    then show ?thesis by simp
  next
    case 3
    then have "binary64 (binary64 (- x)) = binary64 (- x)" by (intro binary64_idem_pos) simp
    then show ?thesis by (simp add: binary64_minus)
  qed
qed

lemma binary64_mono_pos:
  assumes "0 < x" and "x \<le> y"
  shows "binary64 x \<le> binary64 y"
proof -
  define ex where "ex = \<lfloor>log 2 \<bar>x\<bar>\<rfloor> - 52"
  define ey where "ey = \<lfloor>log 2 \<bar>y\<bar>\<rfloor> - 52"
  have y: "0 < y" using assms by simp
  have "log 2 x \<le> log 2 y" using assms by simp
  then have le: "ex \<le> ey" using assms y by (simp add: ex_def ey_def floor_mono)
  show ?thesis
  proof (cases "ex = ey")
    case True
    have nzx: "x \<noteq> 0" and nzy: "y \<noteq> 0" using assms by simp_all
    have "x / pow2 ex \<le> y / pow2 ex"
      using assms(2) pow2_pos[of ex] by (intro divide_right_mono) linarith+
    then have "round_half_even (x / pow2 ex) \<le> round_half_even (y / pow2 ex)" by (rule rhe_mono)
    then have "of_int (round_half_even (x / pow2 ex)) * pow2 ex
                 \<le> (of_int (round_half_even (y / pow2 ex)) :: real) * pow2 ex"
      by (simp add: mult_right_mono)
    then show ?thesis
      using binary64_form(1)[OF nzx] binary64_form(1)[OF nzy] True
      by (simp add: ex_def ey_def)
  next
    case False
    then have "ex + 53 \<le> ey + 52" using le by simp
    then have "pow2 (ex + 53) \<le> pow2 (ey + 52)" by (rule pow2_mono)
    moreover have "binary64 x \<le> pow2 (ex + 53)"
      using binary64_pos_bounds(2)[OF assms(1)] by (simp add: ex_def)
    moreover have "pow2 (ey + 52) \<le> binary64 y"
      using binary64_pos_bounds(1)[OF y] by (simp add: ey_def)
    ultimately show ?thesis by linarith
  qed
qed

lemma binary64_mono: "x \<le> y \<Longrightarrow> binary64 x \<le> binary64 y"
proof -
  assume xy: "x \<le> y"
  consider "0 < x" | "x \<le> 0" "0 \<le> y" | "y < 0" using xy by linarith
  then show ?thesis
  proof cases
    case 1
    then show ?thesis using xy by (rule binary64_mono_pos)
  next
    case 2
    have "binary64 x \<le> 0"
    proof (cases "x = 0")
      case False
      then have "0 < binary64 (- x)" using 2 by (intro binary64_pos) simp
      then show ?thesis by (simp add: binary64_minus)
    qed simp
    moreover have "0 \<le> binary64 y"
    proof (cases "y = 0")
      case False
      then have "0 < binary64 y" using 2 by (intro binary64_pos) simp
      then show ?thesis by simp
    qed simp
    ultimately show ?thesis by linarith
  next
    case 3
    then have "binary64 (- y) \<le> binary64 (- x)" using xy by (intro binary64_mono_pos) simp_all
    then show ?thesis by (simp add: binary64_minus)
  qed
qed

lemma rounding_binary64: "rounding binary64"
  by (simp add: rounding_def binary64_mono binary64_minus binary64_idem)

lemma rounding_exact: "rounding (\<lambda>x. x)"
  by (simp add: rounding_def)

lemma roundingD:
  assumes "rounding fl"
  shows "x \<le> y \<Longrightarrow> fl x \<le> fl y" and "fl (- x) = - fl x" and "fl (fl x) = fl x" and "fl 0 = 0"
proof -
  show "x \<le> y \<Longrightarrow> fl x \<le> fl y" and m: "fl (- x) = - fl x" and "fl (fl x) = fl x"
    using assms by (simp_all add: rounding_def)
  have "fl (- 0) = - fl 0" using assms unfolding rounding_def by blast
  then show "fl 0 = 0" by simp
qed

lemma binary64_int: "\<bar>m\<bar> \<le> 2 ^ 53 \<Longrightarrow> binary64 (of_int m) = of_int m"
  using binary64_dyadic[of m 0] by (simp add: pow2_def)

lemma binary64_numeral [simp]:
  "numeral k \<le> (2::int) ^ 53 \<Longrightarrow> binary64 (numeral k) = numeral k"
  using binary64_int[of "numeral k"] by simp

lemma binary64_one [simp]: "binary64 1 = 1"
  using binary64_int[of 1] by simp

section \<open>Properties of the differential pointing\<close>

lemma length_even_slice: "length (even_slice a) = Suc (length a) div 2"
  by (induction a rule: even_slice.induct) auto

lemma length_odd_slice: "length (odd_slice a) = length a div 2"
  by (induction a rule: odd_slice.induct) auto

lemma length_add_even: "length (add_even fl a rs) = length a"
  by (induction fl a rs rule: add_even.induct) auto

lemma length_add_odd: "length (add_odd fl a rs) = length a"
  by (cases a) (auto simp: length_add_even)

lemma add_even_even:
  "k < length rs \<Longrightarrow> 2 * k < length a \<Longrightarrow> add_even fl a rs ! (2 * k) = fl (a ! (2 * k) + rs ! k)"
proof (induction fl a rs arbitrary: k rule: add_even.induct)
  case (1 fl x y xs r rs)
  then show ?case by (cases k) auto
next
  case (2 fl x r rs)
  then show ?case by (cases k) auto
qed auto

lemma add_even_odd: "add_even fl a rs ! Suc (2 * k) = a ! Suc (2 * k)"
proof (induction fl a rs arbitrary: k rule: add_even.induct)
  case (1 fl x y xs r rs)
  then show ?case by (cases k) auto
qed auto

lemma add_odd_odd:
  "k < length rs \<Longrightarrow> Suc (2 * k) < length a \<Longrightarrow>
     add_odd fl a rs ! Suc (2 * k) = fl (a ! Suc (2 * k) + rs ! k)"
  by (cases a) (auto simp: add_even_even)

lemma add_odd_even: "add_odd fl a rs ! (2 * k) = a ! (2 * k)"
proof (cases a)
  case (Cons x xs)
  then show ?thesis using add_even_odd[of fl xs rs "k - 1"] by (cases k) auto
qed auto

lemma broadcast_to_same: "length rs = n \<Longrightarrow> broadcast_to n rs = Inr rs"
  by (simp add: broadcast_to_def)

lemma broadcast_to_fail:
  "length rs \<noteq> n \<Longrightarrow> length rs \<noteq> 1 \<Longrightarrow> \<exists>e. broadcast_to n rs = Inl e"
  by (simp add: broadcast_to_def)

lemma length_beam_rho: "beam_rho fl state mu sigma npair = Inr rho \<Longrightarrow> length rho = npair"
  by (auto simp: beam_rho_def normal_def split: if_splits)

lemma length_beam_theta: "length (beam_theta fl state npair) = npair"
  by (simp add: beam_theta_def uniform_def)

lemma length_beam_rhox: "length rho = n \<Longrightarrow> length theta = n \<Longrightarrow> length (beam_rhox fl rho theta) = n"
  by (simp add: beam_rhox_def)

lemma length_beam_rhoy: "length rho = n \<Longrightarrow> length theta = n \<Longrightarrow> length (beam_rhoy fl rho theta) = n"
  by (simp add: beam_rhoy_def)

text \<open>The four in-place additions on arrays of one even length.\<close>

lemma iadd_pair:
  assumes "even (length a)" and "length rs = length a div 2"
  shows "iadd_even fl a rs = Inr (add_even fl a rs)"
    and "iadd_odd fl (add_even fl a rs) (map uminus rs)
           = Inr (add_odd fl (add_even fl a rs) (map uminus rs))"
proof -
  have "Suc (length a) div 2 = length a div 2" using assms(1) by (auto elim!: evenE)
  then show "iadd_even fl a rs = Inr (add_even fl a rs)"
    using assms(2) by (simp add: iadd_even_def length_even_slice broadcast_to_same)
  show "iadd_odd fl (add_even fl a rs) (map uminus rs)
           = Inr (add_odd fl (add_even fl a rs) (map uminus rs))"
    using assms(2) by (simp add: iadd_odd_def length_odd_slice length_add_even broadcast_to_same)
qed

lemma pair_shift:
  assumes "k < length rs" and "Suc (2 * k) < length a"
  shows "add_odd fl (add_even fl a rs) (map uminus rs) ! (2 * k) = fl (a ! (2 * k) + rs ! k)"
    and "add_odd fl (add_even fl a rs) (map uminus rs) ! Suc (2 * k)
           = fl (a ! Suc (2 * k) + - rs ! k)"
proof -
  show "add_odd fl (add_even fl a rs) (map uminus rs) ! (2 * k) = fl (a ! (2 * k) + rs ! k)"
    using assms by (simp add: add_odd_even add_even_even)
  have "add_odd fl (add_even fl a rs) (map uminus rs) ! Suc (2 * k)
          = fl (add_even fl a rs ! Suc (2 * k) + map uminus rs ! k)"
    using assms by (intro add_odd_odd) (simp_all add: length_add_even)
  then show "add_odd fl (add_even fl a rs) (map uminus rs) ! Suc (2 * k)
               = fl (a ! Suc (2 * k) + - rs ! k)"
    using assms by (simp add: add_even_odd)
qed

lemma modify_beam_offsets_even:
  assumes len: "length xpos = length ypos" and ev: "even (length xpos)"
    and st: "np_RandomState gen seed = Inr state"
    and rho: "beam_rho fl state mu sigma (length xpos div 2) = Inr rho"
  shows "modify_beam_offsets fl gen xpos ypos mu sigma seed =
           Inr (add_odd fl (add_even fl xpos (beam_rhox fl rho (beam_theta fl state (length xpos div 2))))
                  (map uminus (beam_rhox fl rho (beam_theta fl state (length xpos div 2)))),
                add_odd fl (add_even fl ypos (beam_rhoy fl rho (beam_theta fl state (length xpos div 2))))
                  (map uminus (beam_rhoy fl rho (beam_theta fl state (length xpos div 2)))))"
proof -
  define npair where "npair = length xpos div 2"
  define theta where "theta = beam_theta fl state npair"
  have lr: "length rho = npair" using length_beam_rho[OF rho] by (simp add: npair_def)
  have lt: "length theta = npair" by (simp add: theta_def length_beam_theta)
  have lx: "length (beam_rhox fl rho theta) = length xpos div 2"
    using length_beam_rhox[OF lr lt] by (simp add: npair_def)
  have ly: "length (beam_rhoy fl rho theta) = length ypos div 2"
    using length_beam_rhoy[OF lr lt] len by (simp add: npair_def)
  have evy: "even (length ypos)" using ev len by simp
  note x = iadd_pair[OF ev lx, of fl]
  note y = iadd_pair[OF evy ly, of fl]
  show ?thesis
    unfolding modify_beam_offsets_def Let_def
    using len st rho x y by (simp add: npair_def theta_def)
qed

text \<open>
  Claim C8, as amended. For x and y offset arrays of one even length, a seed in
  \<open>[0, 2**32)\<close> and a width that is not negative once converted to radians,
  \<open>modify_beam_offsets\<close> returns, and it displaces every pair \<open>(2k, 2k+1)\<close> by opposite
  increments: the top offset becomes the rounded sum of the old offset and \<open>rhox ! k\<close>,
  the bottom offset the rounded sum of the old offset and \<open>- rhox ! k\<close>, and likewise in
  y with \<open>rhoy ! k\<close>. When no addition rounds, the change of the top offset is the
  negation of the change of the bottom offset.
\<close>

theorem modify_beam_offsets_pair_displacement:
  assumes "length xpos = length ypos" and "even (length xpos)"
    and "0 \<le> seed" and "seed < 2 ^ 32"
    and "0 \<le> fl (sigma * arcsecond2rad fl)"
  shows "\<exists>rho x' y'.
           beam_rho fl (gen seed) mu sigma (length xpos div 2) = Inr rho
         \<and> modify_beam_offsets fl gen xpos ypos mu sigma seed = Inr (x', y')
         \<and> length x' = length xpos \<and> length y' = length ypos
         \<and> (\<forall>k < length xpos div 2.
               x' ! (2 * k)
                 = fl (xpos ! (2 * k)
                       + beam_rhox fl rho (beam_theta fl (gen seed) (length xpos div 2)) ! k)
             \<and> x' ! (2 * k + 1)
                 = fl (xpos ! (2 * k + 1)
                       + - beam_rhox fl rho (beam_theta fl (gen seed) (length xpos div 2)) ! k)
             \<and> y' ! (2 * k)
                 = fl (ypos ! (2 * k)
                       + beam_rhoy fl rho (beam_theta fl (gen seed) (length xpos div 2)) ! k)
             \<and> y' ! (2 * k + 1)
                 = fl (ypos ! (2 * k + 1)
                       + - beam_rhoy fl rho (beam_theta fl (gen seed) (length xpos div 2)) ! k))
         \<and> ((\<forall>z. fl z = z) \<longrightarrow>
              (\<forall>k < length xpos div 2.
                 x' ! (2 * k) - xpos ! (2 * k) = - (x' ! (2 * k + 1) - xpos ! (2 * k + 1))
               \<and> y' ! (2 * k) - ypos ! (2 * k) = - (y' ! (2 * k + 1) - ypos ! (2 * k + 1))))"
proof -
  define npair where "npair = length xpos div 2"
  define theta where "theta = beam_theta fl (gen seed) npair"
  obtain rho where rho: "beam_rho fl (gen seed) mu sigma npair = Inr rho"
    using assms(5) by (auto simp: beam_rho_def normal_def)
  define rhox where "rhox = beam_rhox fl rho theta"
  define rhoy where "rhoy = beam_rhoy fl rho theta"
  define x' where "x' = add_odd fl (add_even fl xpos rhox) (map uminus rhox)"
  define y' where "y' = add_odd fl (add_even fl ypos rhoy) (map uminus rhoy)"
  have lr: "length rho = npair" using length_beam_rho[OF rho] .
  have lt: "length theta = npair" by (simp add: theta_def length_beam_theta)
  have lx: "length rhox = npair" unfolding rhox_def using lr lt by (rule length_beam_rhox)
  have ly: "length rhoy = npair" unfolding rhoy_def using lr lt by (rule length_beam_rhoy)
  have st: "np_RandomState gen seed = Inr (gen seed)"
    using assms(3,4) by (simp add: np_RandomState_def)
  have res: "modify_beam_offsets fl gen xpos ypos mu sigma seed = Inr (x', y')"
    unfolding x'_def y'_def rhox_def rhoy_def theta_def npair_def
    by (rule modify_beam_offsets_even[OF assms(1,2) st rho[unfolded npair_def]])
  have idx: "Suc (2 * k) < length xpos" if "k < npair" for k
    using that assms(2) by (auto simp: npair_def elim!: evenE)
  have px: "x' ! (2 * k) = fl (xpos ! (2 * k) + rhox ! k)
          \<and> x' ! (2 * k + 1) = fl (xpos ! (2 * k + 1) + - rhox ! k)" if "k < npair" for k
    using that pair_shift[of k rhox xpos fl] idx[of k] lx by (simp add: x'_def)
  have py: "y' ! (2 * k) = fl (ypos ! (2 * k) + rhoy ! k)
          \<and> y' ! (2 * k + 1) = fl (ypos ! (2 * k + 1) + - rhoy ! k)" if "k < npair" for k
    using that pair_shift[of k rhoy ypos fl] idx[of k] ly assms(1) by (simp add: y'_def)
  have exact: "x' ! (2 * k) - xpos ! (2 * k) = - (x' ! (2 * k + 1) - xpos ! (2 * k + 1))
             \<and> y' ! (2 * k) - ypos ! (2 * k) = - (y' ! (2 * k + 1) - ypos ! (2 * k + 1))"
    if "k < npair" "\<forall>z. fl z = z" for k
    using px[OF that(1)] py[OF that(1)] that(2) by simp
  have len: "length x' = length xpos" "length y' = length ypos"
    by (simp_all add: x'_def y'_def length_add_odd length_add_even)
  show ?thesis
    using rho res len px py exact
    unfolding rhox_def rhoy_def theta_def npair_def by blast
qed

theorem modify_beam_offsets_pair_displacement_witness:
  "length [1, 1 :: real] = length [1, - 1 :: real] \<and> even (length [1, 1 :: real])
   \<and> (0::int) \<le> 5847 \<and> (5847::int) < 2 ^ 32
   \<and> 0 \<le> (\<lambda>x. x) (300 * arcsecond2rad (\<lambda>x. x))
   \<and> (\<exists>x' y'. modify_beam_offsets (\<lambda>x. x) (\<lambda>seed. \<lparr>gauss = (\<lambda>k. 0), unif = (\<lambda>k. 0)\<rparr>)
                  [1, 1] [1, - 1] 600 300 5847 = Inr (x', y')
        \<and> x' ! 0 - 1 = - (x' ! 1 - 1) \<and> y' ! 0 - 1 = - (y' ! 1 - (- 1)))"
proof -
  have h: "0 \<le> (\<lambda>x. x) (300 * arcsecond2rad (\<lambda>x. x))"
    by (simp add: arcsecond2rad_def np_pi_def)
  show ?thesis
    using h modify_beam_offsets_pair_displacement
            [of "[1, 1]" "[1, - 1]" 5847 "\<lambda>x. x" 300
                "\<lambda>seed. \<lparr>gauss = (\<lambda>k. 0), unif = (\<lambda>k. 0)\<rparr>" 600]
    by auto
qed

text \<open>Roundings used by the example below.\<close>

lemma b64_deg2rad: "binary64 (884279719003555 / 281474976710656 / 180) = 5030569068109113 / 288230376151711744"
proof -
  have "binary64 (884279719003555 / 281474976710656 / 180) = of_int (round_half_even ((884279719003555 / 281474976710656 / 180) / pow2 (- 58))) * pow2 (- 58)"
    by (rule binary64_eval) (simp_all add: pow2_def)
  also have "\<dots> = 5030569068109113 / 288230376151711744"
    by (simp add: pow2_def round_half_even_def Let_def)
  finally show ?thesis .
qed

lemma b64_arcsecond2rad: "binary64 (5030569068109113 / 288230376151711744 / 3600) = 5723669695270813 / 1180591620717411303424"
proof -
  have "binary64 (5030569068109113 / 288230376151711744 / 3600) = of_int (round_half_even ((5030569068109113 / 288230376151711744 / 3600) / pow2 (- 70))) * pow2 (- 70)"
    by (rule binary64_eval) (simp_all add: pow2_def)
  also have "\<dots> = 5723669695270813 / 1180591620717411303424"
    by (simp add: pow2_def round_half_even_def Let_def)
  finally show ?thesis .
qed

lemma b64_loc: "binary64 (28618348476354065 / 590295810358705651712) = 1788646779772129 / 36893488147419103232"
proof -
  have "binary64 (28618348476354065 / 590295810358705651712) = of_int (round_half_even ((28618348476354065 / 590295810358705651712) / pow2 (- 67))) * pow2 (- 67)"
    by (rule binary64_eval) (simp_all add: pow2_def)
  also have "\<dots> = 1788646779772129 / 36893488147419103232"
    by (simp add: pow2_def round_half_even_def Let_def)
  finally show ?thesis .
qed

lemma b64_scale: "binary64 (28618348476354065 / 1180591620717411303424) = 1788646779772129 / 73786976294838206464"
proof -
  have "binary64 (28618348476354065 / 1180591620717411303424) = of_int (round_half_even ((28618348476354065 / 1180591620717411303424) / pow2 (- 68))) * pow2 (- 68)"
    by (rule binary64_eval) (simp_all add: pow2_def)
  also have "\<dots> = 1788646779772129 / 73786976294838206464"
    by (simp add: pow2_def round_half_even_def Let_def)
  finally show ?thesis .
qed

lemma b64_half: "binary64 (1788646779772129 / 73786976294838206464) = 1788646779772129 / 73786976294838206464"
proof -
  have "binary64 (1788646779772129 / 73786976294838206464) = of_int (round_half_even ((1788646779772129 / 73786976294838206464) / pow2 (- 68))) * pow2 (- 68)"
    by (rule binary64_eval) (simp_all add: pow2_def)
  also have "\<dots> = 1788646779772129 / 73786976294838206464"
    by (simp add: pow2_def round_half_even_def Let_def)
  finally show ?thesis .
qed

lemma b64_loc_fix: "binary64 (1788646779772129 / 36893488147419103232) = 1788646779772129 / 36893488147419103232"
proof -
  have "binary64 (1788646779772129 / 36893488147419103232) = of_int (round_half_even ((1788646779772129 / 36893488147419103232) / pow2 (- 67))) * pow2 (- 67)"
    by (rule binary64_eval) (simp_all add: pow2_def)
  also have "\<dots> = 1788646779772129 / 36893488147419103232"
    by (simp add: pow2_def round_half_even_def Let_def)
  finally show ?thesis .
qed

lemma b64_top: "binary64 (73788764941617978593 / 73786976294838206464) = 4503708797706175 / 4503599627370496"
proof -
  have "binary64 (73788764941617978593 / 73786976294838206464) = of_int (round_half_even ((73788764941617978593 / 73786976294838206464) / pow2 (- 52))) * pow2 (- 52)"
    by (rule binary64_eval) (simp_all add: pow2_def)
  also have "\<dots> = 4503708797706175 / 4503599627370496"
    by (simp add: pow2_def round_half_even_def Let_def)
  finally show ?thesis .
qed

lemma b64_bottom: "binary64 (73785187648058434335 / 73786976294838206464) = 9006980914069633 / 9007199254740992"
proof -
  have "binary64 (73785187648058434335 / 73786976294838206464) = of_int (round_half_even ((73785187648058434335 / 73786976294838206464) / pow2 (- 53))) * pow2 (- 53)"
    by (rule binary64_eval) (simp_all add: pow2_def)
  also have "\<dots> = 9006980914069633 / 9007199254740992"
    by (simp add: pow2_def round_half_even_def Let_def)
  finally show ?thesis .
qed

lemma arcsecond2rad_binary64: "arcsecond2rad binary64 = 5723669695270813 / 1180591620717411303424"
  unfolding arcsecond2rad_def np_pi_def by (simp only: b64_deg2rad b64_arcsecond2rad)

lemma beam_rho_example:
  "beam_rho binary64 \<lparr>gauss = (\<lambda>k. 0), unif = (\<lambda>k. 0)\<rparr> 10 5 (Suc 0) = Inr [1788646779772129 / 36893488147419103232]"
  by (simp add: beam_rho_def normal_def arcsecond2rad_binary64 b64_loc b64_scale b64_loc_fix)

lemma beam_theta_example:
  "beam_theta binary64 \<lparr>gauss = (\<lambda>k. 0), unif = (\<lambda>k. 0)\<rparr> (Suc 0) = [0]"
  by (simp add: beam_theta_def uniform_def)

lemma beam_rhox_example: "beam_rhox binary64 [1788646779772129 / 36893488147419103232] [0] = [1788646779772129 / 73786976294838206464]"
  by (simp add: beam_rhox_def np_cos_def b64_half)

lemma beam_rhoy_example: "beam_rhoy binary64 [1788646779772129 / 36893488147419103232] [0] = [0]"
  by (simp add: beam_rhoy_def np_sin_def b64_half)

text \<open>
  Claim C8 as stated fails in binary64 arithmetic. With the default mean of 10 arcseconds
  and a generator that delivers zero variates, the pair \<open>(1, 1)\<close> becomes
  \<open>(1 + 109170335679 / 2 ^ 52, 1 - 218340671359 / 2 ^ 53)\<close>: the two changes are not
  negations of each other.
\<close>

theorem modify_beam_offsets_rounding_counterexample:
  "modify_beam_offsets binary64 (\<lambda>seed. \<lparr>gauss = (\<lambda>k. 0), unif = (\<lambda>k. 0)\<rparr>)
       [1, 1] [1, 1] 10 5 5847
     = Inr ([4503708797706175 / 4503599627370496, 9006980914069633 / 9007199254740992], [1, 1])
   \<and> 4503708797706175 / 4503599627370496 - 1 \<noteq> - (9006980914069633 / 9007199254740992 - (1::real))"
  by (simp add: modify_beam_offsets_def np_RandomState_def beam_rho_example beam_theta_example
      beam_rhox_example beam_rhoy_example iadd_even_def iadd_odd_def broadcast_to_def
      b64_top b64_bottom)

text \<open>
  Claim C10, as amended. For x and y offset arrays of one odd length other than three,
  \<open>modify_beam_offsets\<close> raises, at the first in-place addition at the latest, and both
  arrays keep their contents.
\<close>

theorem modify_beam_offsets_odd_length:
  assumes "length xpos = length ypos" and "odd (length xpos)" and "length xpos \<noteq> 3"
  shows "\<exists>e. modify_beam_offsets fl gen xpos ypos mu sigma seed = Inl (e, (xpos, ypos))"
proof (cases "np_RandomState gen seed")
  case (Inl e)
  then show ?thesis using assms(1) by (simp add: modify_beam_offsets_def)
next
  case (Inr state)
  define npair where "npair = length xpos div 2"
  show ?thesis
  proof (cases "beam_rho fl state mu sigma npair")
    case (Inl e)
    then show ?thesis using assms(1) Inr by (simp add: modify_beam_offsets_def npair_def)
  next
    case rho: (Inr rho)
    define rhox where "rhox = beam_rhox fl rho (beam_theta fl state npair)"
    have lx: "length rhox = npair"
      unfolding rhox_def using length_beam_rho[OF rho] length_beam_theta
      by (rule length_beam_rhox)
    have "length (even_slice xpos) = npair + 1"
      using assms(2) by (auto simp: length_even_slice npair_def elim!: oddE)
    moreover have "npair \<noteq> 1" using assms(2,3) by (auto simp: npair_def elim!: oddE)
    ultimately obtain e where "broadcast_to (length (even_slice xpos)) rhox = Inl e"
      using broadcast_to_fail[of rhox "length (even_slice xpos)"] lx by auto
    then have "iadd_even fl xpos rhox = Inl e" by (simp add: iadd_even_def)
    then show ?thesis
      unfolding modify_beam_offsets_def Let_def
      using assms(1) Inr rho by (simp add: npair_def rhox_def)
  qed
qed

theorem modify_beam_offsets_odd_length_witness:
  "length [0 :: real] = length [0 :: real] \<and> odd (length [0 :: real]) \<and> length [0 :: real] \<noteq> 3
   \<and> (\<exists>e. modify_beam_offsets binary64 (\<lambda>seed. \<lparr>gauss = (\<lambda>k. 0), unif = (\<lambda>k. 0)\<rparr>)
              [0] [0] 10 5 5847 = Inl (e, ([0], [0])))"
  using modify_beam_offsets_odd_length
          [of "[0]" "[0]" binary64 "\<lambda>seed. \<lparr>gauss = (\<lambda>k. 0), unif = (\<lambda>k. 0)\<rparr>" 10 5 5847]
  by simp

text \<open>
  Claim C10 as stated fails at length three: the single drawn displacement is broadcast
  over both even-index entries, the call returns, and the x array is modified.
\<close>

theorem modify_beam_offsets_length_three_counterexample:
  "odd (length [0, 0, 0 :: real])
   \<and> modify_beam_offsets binary64 (\<lambda>seed. \<lparr>gauss = (\<lambda>k. 0), unif = (\<lambda>k. 0)\<rparr>)
         [0, 0, 0] [0, 0, 0] 10 5 5847
       = Inr ([1788646779772129 / 73786976294838206464, - (1788646779772129 / 73786976294838206464), 1788646779772129 / 73786976294838206464], [0, 0, 0])
   \<and> [1788646779772129 / 73786976294838206464, - (1788646779772129 / 73786976294838206464), 1788646779772129 / 73786976294838206464] \<noteq> [0, 0, 0 :: real]"
  by (simp add: modify_beam_offsets_def np_RandomState_def beam_rho_example beam_theta_example
      beam_rhox_example beam_rhoy_example iadd_even_def iadd_odd_def broadcast_to_def
      b64_half binary64_minus)

section \<open>Properties of the crosstalk injection\<close>

lemma binary64_small_dyadics:
  "binary64 (1 / 2) = 1 / 2" "binary64 (3 / 2) = 3 / 2"
  "binary64 (3 / 4) = 3 / 4" "binary64 (7 / 4) = 7 / 4"
  using binary64_dyadic[of 1 "- 1"] binary64_dyadic[of 3 "- 1"]
        binary64_dyadic[of 3 "- 2"] binary64_dyadic[of 7 "- 2"]
  by (simp_all add: pow2_def)

text \<open>
  Claim C1. Two detectors with unit timestreams, leakage coefficient one half (mean fifty
  percent, width zero, so for every generator), in binary64 arithmetic; every operation
  is exact at these values. Within one SQUID on neighbouring channels, and in two
  different SQUIDs with attenuation one, the source gives the second detector
  \<open>1 + 1/2 * (1 + 1/2) = 7/4\<close>: its term is read from the first detector's already
  contaminated timestream. Reading from the snapshot gives \<open>3/2\<close> for both, and visiting
  the two detectors in the other order moves the \<open>7/4\<close> to the first detector.
\<close>

theorem inject_crosstalk_reads_contaminated_timestreams:
  "inject_crosstalk_inside_SQUID binary64 f_kernel gen [[1], [1]] [''a'', ''a''] [0, 1]
       50 0 1 2 5438765 None ''python'' = Inr ([[3 / 2], [7 / 4]], None)
   \<and> snapshot_inside_SQUID_loops binary64 1 2 [1 / 2, 1 / 2] [(''a'', [(0, 0), (1, 1)])]
         [[1], [1]] = [[3 / 2], [3 / 2]]
   \<and> inside_SQUID_loops binary64 1 2 [1 / 2, 1 / 2] [(''a'', [(1, 1), (0, 0)])] [[1], [1]]
       = [[7 / 4], [3 / 2]]
   \<and> inject_crosstalk_SQUID_to_SQUID binary64 gen [[1], [1]] [''a'', ''b''] [0, 0]
         50 0 1 5438765 None = Inr ([[3 / 2], [7 / 4]], None)
   \<and> snapshot_SQUID_to_SQUID_loops binary64 1 [1 / 2, 1 / 2]
         [(''a'', [(0, 0)]), (''b'', [(0, 1)])] [[1], [1]] = Inr [[3 / 2], [3 / 2]]
   \<and> SQUID_to_SQUID_loops binary64 1 [1 / 2, 1 / 2] [(''b'', [(0, 1)]), (''a'', [(0, 0)])]
         [[1], [1]] = Inr [[7 / 4], [3 / 2]]"
  by (simp add: inject_crosstalk_inside_SQUID_def inject_crosstalk_SQUID_to_SQUID_def
      build_combs_def inside_SQUID_loops_def inside_SQUID_pair_def SQUID_to_SQUID_loops_def
      SQUID_to_SQUID_pair_def snapshot_inside_SQUID_loops_def snapshot_inside_SQUID_pair_def
      snapshot_SQUID_to_SQUID_loops_def snapshot_SQUID_to_SQUID_pair_def row_axpy_def
      normal_def np_RandomState_def err_bind_def write_back_def upt_rec
      binary64_small_dyadics)

end
